theory Spec2Isabelle
  imports Complex_Main
begin

section \<open>Shared data model (types.ts)\<close>

datatype AgentRole = Analyzer | Planner | Executor | Reviewer | Coordinator | Steward | Oracle

datatype TaskStatus = TS_pending | TS_in_progress | TS_blocked | TS_review | TS_completed | TS_failed

datatype WorkflowStatus =
  WS_pending | WS_running | WS_completed | WS_failed | WS_paused | WS_needs_review

datatype AgentResultStatus = Completed | Failed | NeedsReview

datatype ArtifactType =
  AT_analysis | AT_spec | AT_decomposition | AT_code_changes | AT_review | AT_coordination
  | AT_management | AT_oracle

text \<open>An artifact; the free-form \<open>metadata\<close> object is kept as the two entries the runtime
  always writes (\<open>handoff_notes\<close>, \<open>review_notes\<close>).\<close>

record Artifact =
  a_type :: ArtifactType
  a_content :: string
  a_handoff_notes :: string
  a_review_notes :: string
  a_createdAt :: string

text \<open>\<open>TaskComplexity\<close> is a JavaScript number in \<open>[0, 1]\<close>; only storing and comparing it
  matters here, so it is a real.\<close>

type_synonym TaskComplexity = real

record TaskData =
  t_id :: string
  t_parentId :: "string option"
  t_description :: string
  t_status :: TaskStatus
  t_complexity :: "TaskComplexity option"
  t_assignedRole :: "AgentRole option"
  t_artifacts :: "Artifact list"
  t_subtaskIds :: "string list"
  t_workflowId :: "string option"
  t_createdAt :: string
  t_updatedAt :: string

section \<open>TaskManager (orchestrator/TaskManager.ts)\<close>

text \<open>
  The manager holds an in-memory \<open>Map\<close> from task id to task record and a \<open>FileStore\<close>.
  The store is a key-to-record map; \<open>FileStore.write\<close> may throw (an I/O error), which is
  the parameter \<open>fails\<close>: the keys whose write throws. A method returns \<open>Inl msg\<close> when
  the awaited \<open>persist\<close> rejects; the in-memory mutation has already happened by then.
\<close>

record TaskManager =
  tasks :: "string \<rightharpoonup> TaskData"
  store :: "string \<rightharpoonup> TaskData"

definition persist :: "(string \<Rightarrow> bool) \<Rightarrow> TaskData \<Rightarrow> TaskManager \<Rightarrow> string + TaskManager" where
  "persist fails task m =
     (let key = ''tasks/'' @ t_id task
      in if fails key then Inl ''write failed''
         else Inr (m\<lparr>store := (store m)(key \<mapsto> task)\<rparr>))"

text \<open>\<open>create(description, parentId)\<close>; the fresh UUID and the clock reading are inputs.\<close>

definition create ::
  "(string \<Rightarrow> bool) \<Rightarrow> string \<Rightarrow> string \<Rightarrow> string \<Rightarrow> string option \<Rightarrow> TaskManager
     \<Rightarrow> (string + TaskData) \<times> TaskManager" where
  "create fails uuid now description parentId m =
     (let task = \<lparr>t_id = uuid, t_parentId = parentId, t_description = description,
                   t_status = TS_pending, t_complexity = None, t_assignedRole = None,
                   t_artifacts = [], t_subtaskIds = [], t_workflowId = None,
                   t_createdAt = now, t_updatedAt = now\<rparr>;
          m1 = m\<lparr>tasks := (tasks m)(t_id task \<mapsto> task)\<rparr>
      in case persist fails task m1 of
           Inl e \<Rightarrow> (Inl e, m1)
         | Inr m2 \<Rightarrow> (Inr task, m2))"

definition get :: "TaskManager \<Rightarrow> string \<Rightarrow> TaskData option" where
  "get m i = tasks m i"

text \<open>
  \<open>setComplexity(id, complexity)\<close>: look the task up, return when it is unknown, otherwise
  assign the field, stamp \<open>updatedAt\<close> and persist. There is no test of the field's
  previous value.
\<close>

definition setComplexity ::
  "(string \<Rightarrow> bool) \<Rightarrow> string \<Rightarrow> string \<Rightarrow> TaskComplexity \<Rightarrow> TaskManager
     \<Rightarrow> (string + unit) \<times> TaskManager" where
  "setComplexity fails now i complexity m =
     (case tasks m i of
        None \<Rightarrow> (Inr (), m)
      | Some task \<Rightarrow>
          (let task' = task\<lparr>t_complexity := Some complexity, t_updatedAt := now\<rparr>;
               m1 = m\<lparr>tasks := (tasks m)(i \<mapsto> task')\<rparr>
           in case persist fails task' m1 of
                Inl e \<Rightarrow> (Inl e, m1)
              | Inr m2 \<Rightarrow> (Inr (), m2)))"

definition empty_manager :: TaskManager where
  "empty_manager = \<lparr>tasks = Map.empty, store = Map.empty\<rparr>"

definition complexity_of :: "TaskManager \<Rightarrow> string \<Rightarrow> TaskComplexity option" where
  "complexity_of m i = (case get m i of None \<Rightarrow> None | Some t \<Rightarrow> t_complexity t)"

text \<open>The manager after \<open>create\<close>, then \<open>setComplexity 0.25\<close>, then \<open>setComplexity 0.85\<close>.\<close>

definition once_set :: TaskManager where
  "once_set =
     (let m0 = snd (create (\<lambda>_. False) ''t1'' ''00:00'' ''test task'' None empty_manager)
      in snd (setComplexity (\<lambda>_. False) ''00:01'' ''t1'' 0.25 m0))"

definition twice_set :: TaskManager where
  "twice_set = snd (setComplexity (\<lambda>_. False) ''00:02'' ''t1'' 0.85 once_set)"

section \<open>JavaScript strings\<close>

text \<open>
  A string is a list of characters; the model's strings are ASCII, so \<open>toLowerCase\<close> maps
  \<open>A\<close>-\<open>Z\<close> only and white space (\<open>\s\<close>, \<open>trim\<close>) is tab, line feed, vertical tab, form
  feed, carriage return and space.
\<close>

definition is_space :: "char \<Rightarrow> bool" where
  "is_space c = (c = CHR 0x09 \<or> c = CHR 0x0A \<or> c = CHR 0x0B \<or> c = CHR 0x0C
                 \<or> c = CHR 0x0D \<or> c = CHR 0x20)"

definition lower_char :: "char \<Rightarrow> char" where
  "lower_char c =
     (let n = (of_char c :: nat) in if 65 \<le> n \<and> n \<le> 90 then char_of (n + 32) else c)"

definition toLowerCase :: "string \<Rightarrow> string" where
  "toLowerCase s = map lower_char s"

definition trim :: "string \<Rightarrow> string" where
  "trim s = rev (dropWhile is_space (rev (dropWhile is_space s)))"

definition startsWith :: "string \<Rightarrow> string \<Rightarrow> bool" where
  "startsWith s p = (take (length p) s = p)"

definition endsWith :: "string \<Rightarrow> string \<Rightarrow> bool" where
  "endsWith s p = startsWith (rev s) (rev p)"

fun str_includes :: "string \<Rightarrow> string \<Rightarrow> bool" where
  "str_includes [] w = (w = [])"
| "str_includes (c # cs) w = (startsWith (c # cs) w \<or> str_includes cs w)"

text \<open>\<open>s.split(/\s+/)\<close>: the pieces between maximal runs of white space; a separator at
  either end leaves an empty piece there, and the empty string gives one empty piece.\<close>

fun split_ws_from :: "string \<Rightarrow> bool \<Rightarrow> string \<Rightarrow> string list" where
  "split_ws_from cur insep [] = [rev cur]"
| "split_ws_from cur insep (c # cs) =
     (if is_space c
      then (if insep then split_ws_from cur True cs else rev cur # split_ws_from [] True cs)
      else split_ws_from (c # cur) False cs)"

definition split_ws :: "string \<Rightarrow> string list" where
  "split_ws s = split_ws_from [] False s"

text \<open>\<open>arr.filter(Boolean).join(sep)\<close> on strings: drop the empty ones and join.\<close>

fun join :: "string \<Rightarrow> string list \<Rightarrow> string" where
  "join sep [] = []"
| "join sep [x] = x"
| "join sep (x # y # ys) = x @ sep @ join sep (y # ys)"

definition join_nonempty :: "string \<Rightarrow> string list \<Rightarrow> string" where
  "join_nonempty sep xs = join sep (filter (\<lambda>x. x \<noteq> []) xs)"

text \<open>Decimal rendering of a number inside a template string.\<close>

definition digit_char :: "nat \<Rightarrow> char" where
  "digit_char d = char_of (48 + d)"

fun show_nat_fuel :: "nat \<Rightarrow> nat \<Rightarrow> string" where
  "show_nat_fuel 0 n = [digit_char (n mod 10)]"
| "show_nat_fuel (Suc k) n =
     (if n < 10 then [digit_char n] else show_nat_fuel k (n div 10) @ [digit_char (n mod 10)])"

definition show_nat :: "nat \<Rightarrow> string" where
  "show_nat n = show_nat_fuel n n"

definition show_int :: "int \<Rightarrow> string" where
  "show_int i = (if i < 0 then CHR ''-'' # show_nat (nat (- i)) else show_nat (nat i))"

section \<open>Regular expressions used by the tool surface\<close>

text \<open>
  The patterns of \<open>definitions.ts\<close> are built from literal characters, \<open>\s\<close>, \<open>.\<close>, a
  character class, \<open>\b\<close>, \<open>$\<close>, the quantifiers \<open>+\<close> and \<open>*\<close> on a single character, and a
  top-level alternation. A pattern is a list of alternatives, each a sequence of items;
  \<open>RegExp.prototype.test\<close> succeeds when some alternative matches at some position.
\<close>

datatype atom = Lit char | LitI char | Cls "char list" | Space | AnyCh

datatype item = One atom | Plus atom | Star atom | WordB | Eol | EolM

type_synonym regex = "item list list"

definition is_word :: "char \<Rightarrow> bool" where
  "is_word c =
     (let n = (of_char c :: nat)
      in (48 \<le> n \<and> n \<le> 57) \<or> (65 \<le> n \<and> n \<le> 90) \<or> (97 \<le> n \<and> n \<le> 122) \<or> n = 95)"

definition is_line_end :: "char \<Rightarrow> bool" where
  "is_line_end c = (c = CHR 0x0A \<or> c = CHR 0x0D)"

fun atom_ok :: "atom \<Rightarrow> char \<Rightarrow> bool" where
  "atom_ok (Lit a) c = (a = c)"
| "atom_ok (LitI a) c = (lower_char a = lower_char c)"
| "atom_ok (Cls as) c = (c \<in> set as)"
| "atom_ok Space c = is_space c"
| "atom_ok AnyCh c = (\<not> is_line_end c)"

definition word_opt :: "char option \<Rightarrow> bool" where
  "word_opt p = (case p of None \<Rightarrow> False | Some c \<Rightarrow> is_word c)"

text \<open>\<open>match_seq items prev s\<close>: the sequence matches a prefix of \<open>s\<close>, where \<open>prev\<close> is the
  character before \<open>s\<close> in the subject (for \<open>\b\<close>). Quantifiers backtrack.\<close>

fun match_seq :: "item list \<Rightarrow> char option \<Rightarrow> string \<Rightarrow> bool" where
  "match_seq [] prev s = True"
| "match_seq (One a # rest) prev [] = False"
| "match_seq (One a # rest) prev (c # cs) = (atom_ok a c \<and> match_seq rest (Some c) cs)"
| "match_seq (Plus a # rest) prev [] = False"
| "match_seq (Plus a # rest) prev (c # cs) = (atom_ok a c \<and> match_seq (Star a # rest) (Some c) cs)"
| "match_seq (Star a # rest) prev [] = match_seq rest prev []"
| "match_seq (Star a # rest) prev (c # cs) =
     ((atom_ok a c \<and> match_seq (Star a # rest) (Some c) cs) \<or> match_seq rest prev (c # cs))"
| "match_seq (WordB # rest) prev s =
     (word_opt prev \<noteq> word_opt (case s of [] \<Rightarrow> None | c # _ \<Rightarrow> Some c) \<and> match_seq rest prev s)"
| "match_seq (Eol # rest) prev s = (s = [] \<and> match_seq rest prev s)"
| "match_seq (EolM # rest) prev s =
     ((case s of [] \<Rightarrow> True | c # _ \<Rightarrow> is_line_end c) \<and> match_seq rest prev s)"

definition match_here :: "regex \<Rightarrow> char option \<Rightarrow> string \<Rightarrow> bool" where
  "match_here re prev s = list_ex (\<lambda>alt. match_seq alt prev s) re"

fun search_from :: "regex \<Rightarrow> char option \<Rightarrow> string \<Rightarrow> bool" where
  "search_from re prev [] = match_here re prev []"
| "search_from re prev (c # cs) = (match_here re prev (c # cs) \<or> search_from re (Some c) cs)"

definition test :: "regex \<Rightarrow> string \<Rightarrow> bool" where
  "test re s = search_from re None s"

definition lits :: "string \<Rightarrow> item list" where
  "lits s = map (\<lambda>c. One (Lit c)) s"

definition litsI :: "string \<Rightarrow> item list" where
  "litsI s = map (\<lambda>c. One (LitI c)) s"

section \<open>Tool surface: shell tools (tools/definitions.ts)\<close>

text \<open>Decoded JSON values (tool arguments, parser input).\<close>

datatype json =
  JNull | JBool bool | JNum real | JStr string | JArr "json list" | JObj "(string \<times> json) list"

record ToolExecutionResult =
  content :: string
  isError :: bool

text \<open>A tool's promise either resolves with a result or rejects with an error message.\<close>

datatype outcome = Returns ToolExecutionResult | Throws string

text \<open>What a tool does to the outside world, in order: a child process handed to \<open>execa\<close>
  (command and working directory), a file read, a file write, a directory listing, a
  line on the tool log.\<close>

datatype effect =
  Spawn string string | FsRead string | FsWrite string string | FsReadDir string | LogTool string

record ToolContext =
  taskId :: string
  agentId :: string
  workingDirectory :: string
  fileScope :: "string list option"
  aborted :: bool

text \<open>\<open>execa\<close> with \<open>reject: false\<close>: it resolves with the process result, whose \<open>exitCode\<close>
  is undefined when the process did not exit by itself, or it rejects.\<close>

record execa_result =
  stdout :: string
  stderr :: string
  exitCode :: "int option"

datatype execa_outcome = ExecaResolves execa_result | ExecaRejects string

record dirent =
  d_name :: string
  d_isDirectory :: bool

text \<open>
  The Node.js runtime the tools call, as parameters: \<open>path.resolve\<close> with one and with two
  arguments, \<open>path.relative\<close>, \<open>String.prototype.localeCompare\<close>, \<open>execa\<close>, the file system
  (\<open>Inl\<close> is the message of the error thrown), and the regular expression engine for
  patterns supplied by the caller: whether the source compiles, and \<open>exec\<close> from a
  \<open>lastIndex\<close>, giving the new \<open>lastIndex\<close> on a match.
\<close>

record runtime =
  resolve1 :: "string \<Rightarrow> string"
  resolve :: "string \<Rightarrow> string \<Rightarrow> string"
  relative :: "string \<Rightarrow> string \<Rightarrow> string"
  localeCompare :: "string \<Rightarrow> string \<Rightarrow> int"
  execa :: "string \<Rightarrow> string \<Rightarrow> execa_outcome"
  readFile :: "string \<Rightarrow> string + string"
  writeFile :: "string \<Rightarrow> string \<Rightarrow> string option"
  readdir :: "string \<Rightarrow> string + dirent list"
  re_valid :: "string \<Rightarrow> bool"
  re_exec :: "string \<Rightarrow> nat \<Rightarrow> string \<Rightarrow> nat option"

definition bs :: char where
  "bs = CHR 0x5C"

definition nl :: char where
  "nl = CHR 0x0A"

text \<open>Stand-in, one character long, for the horizontal ellipsis U+2026 of the messages.\<close>

definition ellipsis :: char where
  "ellipsis = CHR 0x85"

text \<open>\<open>BLOCKED_COMMANDS\<close>, each pattern with its \<open>source\<close>. In the last one the \<open>|\<close> is a
  top-level alternation, \<open>()\<close> an empty group and the braces literal characters.\<close>

definition BLOCKED_COMMANDS :: "(regex \<times> string) list" where
  "BLOCKED_COMMANDS =
    [([WordB # lits ''rm'' @ [Plus Space] @ lits ''-rf'' @ [Plus Space, One (Cls ''/~'')]],
      bs # ''brm'' @ bs # ''s+-rf'' @ bs # ''s+[/~]''),
     ([WordB # lits ''git'' @ [Plus Space] @ lits ''push'' @ [Plus Space] @ lits ''--force''],
      bs # ''bgit'' @ bs # ''s+push'' @ bs # ''s+--force''),
     ([WordB # lits ''git'' @ [Plus Space] @ lits ''push'' @ [Plus Space] @ lits ''-f'' @ [WordB]],
      bs # ''bgit'' @ bs # ''s+push'' @ bs # ''s+-f'' @ bs # ''b''),
     ([WordB # lits ''npm'' @ [Plus Space] @ lits ''publish'' @ [WordB]],
      bs # ''bnpm'' @ bs # ''s+publish'' @ bs # ''b''),
     ([WordB # lits ''npx'' @ [Plus Space, Star AnyCh] @ lits ''publish''],
      bs # ''bnpx'' @ bs # ''s+.*publish''),
     ([WordB # lits ''sudo'' @ [Plus Space] @ lits ''rm'' @ [WordB]],
      bs # ''bsudo'' @ bs # ''s+rm'' @ bs # ''b''),
     ([WordB # lits ''mkfs'' @ [WordB]], bs # ''bmkfs'' @ bs # ''b''),
     ([WordB # lits ''dd'' @ [Plus Space] @ lits ''if=''], bs # ''bdd'' @ bs # ''s+if=''),
     ([WordB # lits '':{ :'', lits '':& };:''], bs # ''b:(){ :|:& };:'')]"

fun isCommandBlocked_in :: "(regex \<times> string) list \<Rightarrow> string \<Rightarrow> string option" where
  "isCommandBlocked_in [] command = None"
| "isCommandBlocked_in ((pattern, source) # ps) command =
     (if test pattern command
      then Some (''Command blocked by safety policy: matches '' @ source)
      else isCommandBlocked_in ps command)"

definition isCommandBlocked :: "string \<Rightarrow> string option" where
  "isCommandBlocked command = isCommandBlocked_in BLOCKED_COMMANDS command"

definition NON_TERMINATING_PATTERNS :: "regex list" where
  "NON_TERMINATING_PATTERNS =
    [[WordB # lits ''npm'' @ [Plus Space] @ lits ''run'' @ [Plus Space] @ lits ''dev'' @ [WordB]],
     [WordB # lits ''npm'' @ [Plus Space] @ lits ''start'' @ [WordB]],
     [WordB # lits ''yarn'' @ [Plus Space] @ lits ''dev'' @ [WordB]],
     [WordB # lits ''yarn'' @ [Plus Space] @ lits ''start'' @ [WordB]],
     [WordB # lits ''next'' @ [Plus Space] @ lits ''dev'' @ [WordB]],
     [WordB # lits ''vite'' @ [WordB]],
     [WordB # lits ''npm'' @ [Plus Space] @ lits ''run'' @ [Plus Space] @ lits ''watch'' @ [WordB]],
     [WordB # lits ''yarn'' @ [Plus Space] @ lits ''watch'' @ [WordB]],
     [WordB # lits ''tsx'' @ [Plus Space] @ lits ''watch'' @ [WordB]],
     [WordB # lits ''ts-node-dev'' @ [WordB]],
     [WordB # lits ''nodemon'' @ [WordB]],
     [WordB # lits ''http-server'' @ [WordB]],
     [WordB # lits ''npx'' @ [Plus Space] @ lits ''http-server'' @ [WordB]]]"

definition isCommandNonTerminating :: "string \<Rightarrow> string option" where
  "isCommandNonTerminating command =
     (if list_ex (\<lambda>pattern. test pattern command) NON_TERMINATING_PATTERNS
      then Some (''This command typically does not exit. Use a one-off command instead ''
                 @ ''(e.g. npm run build, npm test).'')
      else None)"

definition MAX_TOOL_OUTPUT :: nat where
  "MAX_TOOL_OUTPUT = 30000"

definition truncateOutput :: "string \<Rightarrow> string" where
  "truncateOutput output =
     (if length output \<le> MAX_TOOL_OUTPUT then output
      else (let half = MAX_TOOL_OUTPUT div 2;
                omitted = length output - MAX_TOOL_OUTPUT
            in take half output @ [nl, nl] @ ''['' @ [ellipsis] @ '' truncated ''
               @ show_nat omitted @ '' characters '' @ [ellipsis] @ '']'' @ [nl, nl]
               @ drop (length output - half) output))"

text \<open>The prompt detector of \<open>run_terminal_command\<close>, flags \<open>im\<close>.\<close>

definition looksLikePrompt :: regex where
  "looksLikePrompt =
     [litsI ''(y/n)'', litsI ''(Y/n)'', litsI ''Continue?'', litsI ''proceed?'', litsI ''[y/N]'',
      [One (LitI CHR ''>''), Star Space, EolM]]"

definition show_exitCode :: "int option \<Rightarrow> string" where
  "show_exitCode ec = (case ec of None \<Rightarrow> ''undefined'' | Some c \<Rightarrow> show_int c)"

record terminal_args =
  arg_command :: string
  arg_cwd :: "string option"

text \<open>\<open>runTerminalCommandTool.execute\<close>: the result and the effects performed.\<close>

definition terminal_cwd :: "runtime \<Rightarrow> terminal_args \<Rightarrow> ToolContext \<Rightarrow> string" where
  "terminal_cwd rt args ctx =
     (case arg_cwd args of
        None \<Rightarrow> workingDirectory ctx
      | Some d \<Rightarrow> if d = [] then workingDirectory ctx else resolve rt (workingDirectory ctx) d)"

definition run_terminal_command ::
  "runtime \<Rightarrow> terminal_args \<Rightarrow> ToolContext \<Rightarrow> outcome \<times> effect list" where
  "run_terminal_command rt args ctx =
     (case isCommandBlocked (arg_command args) of
        Some blocked \<Rightarrow> (Returns \<lparr>content = blocked, isError = True\<rparr>, [])
      | None \<Rightarrow>
         (case isCommandNonTerminating (arg_command args) of
            Some nonTerminating \<Rightarrow> (Returns \<lparr>content = nonTerminating, isError = True\<rparr>, [])
          | None \<Rightarrow>
             (let cwd = terminal_cwd rt args ctx
              in (case execa rt (arg_command args) cwd of
                    ExecaResolves result \<Rightarrow>
                      (let rawOut = join_nonempty [nl, nl]
                             [if stdout result = [] then [] else ''stdout:'' @ [nl] @ stdout result,
                              if stderr result = [] then [] else ''stderr:'' @ [nl] @ stderr result,
                              ''exit code: '' @ show_exitCode (exitCode result)];
                           hint = (if test looksLikePrompt rawOut
                                   then [nl, nl] @ ''[Command was run with no stdin; it may have ''
                                     @ ''been waiting for input. Retry with piped input (e.g. ''
                                     @ ''yes | cmd or echo y | cmd) or use -y/--yes if available.]''
                                   else [])
                       in Returns \<lparr>content = truncateOutput (rawOut @ hint),
                                   isError = (exitCode result \<noteq> Some 0)\<rparr>)
                  | ExecaRejects msg \<Rightarrow>
                      (if aborted ctx
                       then Returns \<lparr>content = ''Command cancelled (aborted by user).'',
                                     isError = True\<rparr>
                       else Throws (''Command failed: '' @ msg)),
                  [Spawn (arg_command args) cwd]))))"




section \<open>Tool surface: file tools (tools/definitions.ts)\<close>

definition RESTRICTED_DIR :: string where
  "RESTRICTED_DIR = ''.babylon''"

definition SKIP_DIRS :: "string list" where
  "SKIP_DIRS = [''node_modules'', ''.git'', ''.next'', ''dist'', ''build'', RESTRICTED_DIR]"














definition LIST_TREE_MAX_ENTRIES :: nat where
  "LIST_TREE_MAX_ENTRIES = 400"

definition LIST_TREE_MAX_OUTPUT :: nat where
  "LIST_TREE_MAX_OUTPUT = 12000"

text \<open>\<open>entries.sort(...)\<close>: directories first, then by \<open>localeCompare\<close>; the sort is stable.\<close>

definition compare_entries :: "runtime \<Rightarrow> dirent \<Rightarrow> dirent \<Rightarrow> int" where
  "compare_entries rt a b =
     (if d_isDirectory a \<noteq> d_isDirectory b then (if d_isDirectory a then - 1 else 1)
      else localeCompare rt (d_name a) (d_name b))"

fun insert_entry :: "runtime \<Rightarrow> dirent \<Rightarrow> dirent list \<Rightarrow> dirent list" where
  "insert_entry rt x [] = [x]"
| "insert_entry rt x (y # ys) =
     (if compare_entries rt x y \<le> 0 then x # y # ys else y # insert_entry rt x ys)"

definition sort_entries :: "runtime \<Rightarrow> dirent list \<Rightarrow> dirent list" where
  "sort_entries rt es = foldr (insert_entry rt) es []"

definition entry_line :: "dirent \<Rightarrow> string" where
  "entry_line e = (if d_isDirectory e then ''d'' else ''f'') @ '' '' @ d_name e"

text \<open>
  \<open>listDirectoryRecursive\<close>. The pair \<open>currentDepth\<close>, \<open>maxDepth\<close> of the source is carried
  as \<open>levels = maxDepth - currentDepth\<close>, the number of levels still to descend
  (\<open>currentDepth < maxDepth\<close> is \<open>0 < levels\<close>). The state is the lines, the running
  length and the effects so far.
\<close>

fun listDirectoryRecursive ::
  "runtime \<Rightarrow> string \<Rightarrow> string \<Rightarrow> nat \<Rightarrow> string \<Rightarrow> string list \<times> nat \<times> effect list
     \<Rightarrow> string list \<times> nat \<times> effect list"
and list_entries ::
  "runtime \<Rightarrow> string \<Rightarrow> string \<Rightarrow> nat \<Rightarrow> string \<Rightarrow> dirent list
     \<Rightarrow> string list \<times> nat \<times> effect list \<Rightarrow> string list \<times> nat \<times> effect list" where
  "listDirectoryRecursive rt dir basePath levels prefix (lines, totalLen, tr) =
     (if length lines \<ge> LIST_TREE_MAX_ENTRIES \<or> totalLen \<ge> LIST_TREE_MAX_OUTPUT
      then (lines, totalLen, tr)
      else (case readdir rt dir of
              Inl msg \<Rightarrow> (lines, totalLen, tr @ [FsReadDir dir])
            | Inr entries \<Rightarrow>
                list_entries rt dir basePath levels prefix (sort_entries rt entries)
                  (lines, totalLen, tr @ [FsReadDir dir])))"
| "list_entries rt dir basePath levels prefix [] st = st"
| "list_entries rt dir basePath levels prefix (e # es) (lines, totalLen, tr) =
     (if length lines \<ge> LIST_TREE_MAX_ENTRIES \<or> totalLen \<ge> LIST_TREE_MAX_OUTPUT
      then (lines, totalLen, tr)
      else if d_name e \<in> set SKIP_DIRS
      then list_entries rt dir basePath levels prefix es (lines, totalLen, tr)
      else (let line = prefix @ entry_line e;
                st1 = (lines @ [line], totalLen + (length line + 1), tr)
            in (case levels of
                  Suc k \<Rightarrow>
                    if d_isDirectory e
                    then (let full = resolve rt dir (d_name e);
                              rel = relative rt basePath full
                          in if startsWith rel ''..''
                             then list_entries rt dir basePath levels prefix es st1
                             else list_entries rt dir basePath levels prefix es
                                    (listDirectoryRecursive rt full basePath k
                                       (prefix @ ''  '') st1))
                    else list_entries rt dir basePath levels prefix es st1
                | 0 \<Rightarrow> list_entries rt dir basePath levels prefix es st1)))"






text \<open>How a traversal ended: normally, by an exception (the glob did not compile), or
  because the directory tree is nested deeper than the bound \<open>fuel\<close> given to the model.\<close>

datatype ending = Fine | Raised string | NoFuel

definition glob_source :: "string \<Rightarrow> string" where
  "glob_source g =
     concat (map (\<lambda>c. if c = CHR ''*'' then ''.*'' else if c = CHR ''?'' then ''.'' else [c]) g)"

fun collectFiles ::
  "runtime \<Rightarrow> nat \<Rightarrow> string \<Rightarrow> string \<Rightarrow> string option \<Rightarrow> nat \<Rightarrow> string list \<times> effect list
     \<Rightarrow> ending \<times> string list \<times> effect list"
and collect_entries ::
  "runtime \<Rightarrow> nat \<Rightarrow> string \<Rightarrow> string \<Rightarrow> string option \<Rightarrow> nat \<Rightarrow> dirent list
     \<Rightarrow> string list \<times> effect list \<Rightarrow> ending \<times> string list \<times> effect list" where
  "collectFiles rt fuel dir basePath glob maxFiles (results, tr) =
     (if length results \<ge> maxFiles then (Fine, results, tr)
      else (case readdir rt dir of
              Inl msg \<Rightarrow> (Fine, results, tr @ [FsReadDir dir])
            | Inr entries \<Rightarrow>
                collect_entries rt fuel dir basePath glob maxFiles entries
                  (results, tr @ [FsReadDir dir])))"
| "collect_entries rt fuel dir basePath glob maxFiles [] (results, tr) = (Fine, results, tr)"
| "collect_entries rt fuel dir basePath glob maxFiles (e # es) (results, tr) =
     (if length results \<ge> maxFiles then (Fine, results, tr)
      else (let full = resolve rt dir (d_name e);
                rel = relative rt basePath full
            in if d_isDirectory e
               then (if d_name e \<in> set SKIP_DIRS \<or> startsWith rel ''..''
                     then collect_entries rt fuel dir basePath glob maxFiles es (results, tr)
                     else (case fuel of
                             0 \<Rightarrow> (NoFuel, results, tr)
                           | Suc k \<Rightarrow>
                               (case collectFiles rt k full basePath glob maxFiles (results, tr) of
                                  (Fine, st) \<Rightarrow> collect_entries rt fuel dir basePath glob maxFiles es st
                                | (Raised msg, st) \<Rightarrow> (Raised msg, st)
                                | (NoFuel, st) \<Rightarrow> (NoFuel, st))))
               else (if glob \<noteq> None \<and> glob \<noteq> Some []
                     then (if \<not> re_valid rt (glob_source (the glob))
                           then (Raised (''Invalid regular expression: '' @ glob_source (the glob)),
                                 results, tr)
                           else if re_exec rt (glob_source (the glob)) 0 (d_name e) = None
                           then collect_entries rt fuel dir basePath glob maxFiles es (results, tr)
                           else collect_entries rt fuel dir basePath glob maxFiles es
                                  (results @ [rel], tr))
                     else collect_entries rt fuel dir basePath glob maxFiles es
                            (results @ [rel], tr))))"






text \<open>
  A POSIX instance of the path functions, for evaluating the tools on concrete paths:
  segments are separated by \<open>/\<close>, empty segments and \<open>.\<close> are dropped, \<open>..\<close> removes the
  segment before it, and \<open>relative\<close> climbs out of what is left of \<open>from\<close> after the common
  prefix.
\<close>

fun split_slash_from :: "string \<Rightarrow> string \<Rightarrow> string list" where
  "split_slash_from cur [] = [rev cur]"
| "split_slash_from cur (c # cs) =
     (if c = CHR ''/'' then rev cur # split_slash_from [] cs else split_slash_from (c # cur) cs)"

fun normalize_segments :: "string list \<Rightarrow> string list \<Rightarrow> string list" where
  "normalize_segments acc [] = rev acc"
| "normalize_segments acc (x # xs) =
     (if x = [] \<or> x = ''.'' then normalize_segments acc xs
      else if x = ''..'' then normalize_segments (tl acc) xs
      else normalize_segments (x # acc) xs)"

definition segments :: "string \<Rightarrow> string list" where
  "segments p = normalize_segments [] (split_slash_from [] p)"

definition posix_resolve :: "string \<Rightarrow> string \<Rightarrow> string" where
  "posix_resolve base p =
     (if startsWith p ''/'' then CHR ''/'' # join ''/'' (segments p)
      else CHR ''/'' # join ''/'' (segments (base @ ''/'' @ p)))"

fun drop_common :: "string list \<Rightarrow> string list \<Rightarrow> string list \<times> string list" where
  "drop_common (x # xs) (y # ys) = (if x = y then drop_common xs ys else (x # xs, y # ys))"
| "drop_common xs ys = (xs, ys)"

definition posix_relative :: "string \<Rightarrow> string \<Rightarrow> string" where
  "posix_relative from to =
     (let (f, t) = drop_common (segments from) (segments to)
      in join ''/'' (map (\<lambda>_. ''..'') f @ t))"

text \<open>A small world for examples: the working directory \<open>/work\<close> holds \<open>a.txt\<close>, and every
  command exits with code 1.\<close>

definition demo_rt :: runtime where
  "demo_rt =
     \<lparr>resolve1 = (\<lambda>p. posix_resolve ''/'' p), resolve = posix_resolve, relative = posix_relative,
      localeCompare = (\<lambda>a b. 0),
      execa = (\<lambda>command cwd. ExecaResolves \<lparr>stdout = ''out'', stderr = [], exitCode = Some 1\<rparr>),
      readFile = (\<lambda>p. if p = ''/work/a.txt'' then Inr ''hello'' else Inl ''ENOENT''),
      writeFile = (\<lambda>p c. None),
      readdir = (\<lambda>p. if p = ''/work'' then Inr [\<lparr>d_name = ''a.txt'', d_isDirectory = False\<rparr>]
                      else Inl ''ENOENT''),
      re_valid = (\<lambda>src. True),
      re_exec = (\<lambda>src lastIndex subject. None)\<rparr>"

definition demo_ctx :: ToolContext where
  "demo_ctx = \<lparr>taskId = ''task'', agentId = ''agent'', workingDirectory = ''/work'',
               fileScope = None, aborted = False\<rparr>"

section \<open>Agent runtime (agents/AgentRuntime.ts)\<close>

record TokenUsage =
  promptTokens :: nat
  completionTokens :: nat
  totalTokens :: nat

datatype StopReason = SR_end_turn | SR_tool_use | SR_max_tokens

datatype MsgRole = RSystem | RUser | RAssistant | RTool

record LLMToolCall =
  tc_id :: string
  tc_name :: string
  tc_arguments :: json

record LLMMessage =
  m_role :: MsgRole
  m_content :: string
  m_toolCalls :: "LLMToolCall list option"
  m_toolCallId :: "string option"

record LLMResponse =
  r_content :: "string option"
  r_toolCalls :: "LLMToolCall list"
  r_usage :: TokenUsage
  r_stopReason :: StopReason

record AgentResult =
  ar_agentId :: string
  ar_role :: AgentRole
  ar_status :: AgentResultStatus
  ar_artifact :: Artifact
  ar_tokenUsage :: TokenUsage
  ar_conversationLog :: "LLMMessage list"

text \<open>
  The events of \<open>events/types.ts\<close> that are emitted below \<open>WorkflowEngine.run\<close>, by the
  engine's task routing and by the agents; \<open>duration\<close> fields (wall-clock readings) are
  left out. The two workflow events are emitted by \<open>run\<close> alone.
\<close>

datatype inner_event =
  StepStart string AgentRole string
| StepComplete string AgentRole AgentResultStatus
| StepRetry string nat nat string
| AgentSpawn string AgentRole "string option" "string option" string
| AgentTurn string nat nat
| AgentToolCall string string json
| AgentContent string string
| AgentToolResult string string bool
| AgentComplete string AgentResultStatus string
| SubtaskStart string string string nat nat
| SubtaskComplete string WorkflowStatus
| TokenUpdate string TokenUsage TokenUsage
| CompositeCycleStart nat nat
| OracleInvoked string
| OracleDecision string
| OversightCheckIn nat "nat option" bool

datatype TaskBotEvent =
  WorkflowStart string string string
| WorkflowComplete string WorkflowStatus
| Below inner_event

definition MAX_CONSECUTIVE_DUPLICATES :: nat where
  "MAX_CONSECUTIVE_DUPLICATES = 3"

definition LLM_MAX_RETRIES :: nat where
  "LLM_MAX_RETRIES = 3"

text \<open>
  What an agent runs against. The provider and the tools act on an outside world \<open>'w\<close>;
  \<open>chat\<close> resolves with a response or rejects with an error message (\<open>Inl\<close>), and so does
  a tool's \<open>execute\<close>. \<open>JSON.parse\<close>, \<open>JSON.stringify\<close>, the abort signal and the clock are
  parameters too. Delivering an event to the bus is recorded in the agent's event log;
  subscribers are taken not to throw here.
\<close>

record 'w agent_env =
  chat :: "LLMMessage list \<Rightarrow> 'w \<Rightarrow> (string + LLMResponse) \<times> 'w"
  toolMap :: "string \<Rightarrow> (json \<Rightarrow> 'w \<Rightarrow> (string + ToolExecutionResult) \<times> 'w) option"
  signal_aborted :: "'w \<Rightarrow> bool"
  JSON_parse :: "string \<Rightarrow> json option"
  JSON_stringify :: "json \<Rightarrow> string"
  clock :: "'w \<Rightarrow> string"

record AgentConfig =
  cfg_role :: AgentRole
  cfg_systemPrompt :: string
  cfg_maxTurns :: nat
  cfg_maxContextTurns :: "nat option"

record 'w agent =
  ag_agentId :: string
  ag_stepId :: "string option"
  ag_parentAgentId :: "string option"
  ag_messages :: "LLMMessage list"
  ag_cumulativeUsage :: TokenUsage
  ag_recentToolCalls :: "string list"
  ag_lastError :: "string option"
  ag_events :: "inner_event list"
  ag_world :: 'w

definition message :: "MsgRole \<Rightarrow> string \<Rightarrow> LLMMessage" where
  "message r c = \<lparr>m_role = r, m_content = c, m_toolCalls = None, m_toolCallId = None\<rparr>"


definition emit :: "inner_event \<Rightarrow> 'w agent \<Rightarrow> 'w agent" where
  "emit ev st = st\<lparr>ag_events := ag_events st @ [ev]\<rparr>"

definition push :: "LLMMessage \<Rightarrow> 'w agent \<Rightarrow> 'w agent" where
  "push m st = st\<lparr>ag_messages := ag_messages st @ [m]\<rparr>"

definition artifactTypeMap :: "AgentRole \<Rightarrow> ArtifactType" where
  "artifactTypeMap r =
     (case r of Analyzer \<Rightarrow> AT_analysis | Planner \<Rightarrow> AT_spec | Executor \<Rightarrow> AT_code_changes
      | Reviewer \<Rightarrow> AT_review | Coordinator \<Rightarrow> AT_coordination | Steward \<Rightarrow> AT_management
      | Oracle \<Rightarrow> AT_oracle)"

text \<open>\<open>buildResult(status, summary, content, handoffNotes, reviewNotes)\<close>: the artifact's
  content is \<open>content ?? summary\<close>; the log is a copy of the messages so far.\<close>

definition buildResult ::
  "'w agent_env \<Rightarrow> AgentConfig \<Rightarrow> AgentResultStatus \<Rightarrow> string \<Rightarrow> string option \<Rightarrow> string option
     \<Rightarrow> string option \<Rightarrow> 'w agent \<Rightarrow> AgentResult" where
  "buildResult env cfg status summary body handoffNotes reviewNotes st =
     \<lparr>ar_agentId = ag_agentId st, ar_role = cfg_role cfg, ar_status = status,
      ar_artifact =
        \<lparr>a_type = artifactTypeMap (cfg_role cfg),
         a_content = (case body of None \<Rightarrow> summary | Some c \<Rightarrow> c),
         a_handoff_notes = (case handoffNotes of None \<Rightarrow> [] | Some h \<Rightarrow> h),
         a_review_notes = (case reviewNotes of None \<Rightarrow> [] | Some r \<Rightarrow> r),
         a_createdAt = clock env (ag_world st)\<rparr>,
      ar_tokenUsage = ag_cumulativeUsage st,
      ar_conversationLog = ag_messages st\<rparr>"

definition accumulateUsage :: "TokenUsage \<Rightarrow> 'w agent \<Rightarrow> 'w agent" where
  "accumulateUsage usage st =
     (let c = ag_cumulativeUsage st;
          c' = \<lparr>promptTokens = promptTokens c + promptTokens usage,
                completionTokens = completionTokens c + completionTokens usage,
                totalTokens = totalTokens c + totalTokens usage\<rparr>
      in emit (TokenUpdate (ag_agentId st) usage c') (st\<lparr>ag_cumulativeUsage := c'\<rparr>))"

text \<open>\<open>getMessagesForLLM\<close>: with a positive \<open>maxContextTurns\<close> and more assistant messages
  than that, the first two messages and the suffix from the N-th assistant message from
  the end.\<close>

definition assistantIndices :: "LLMMessage list \<Rightarrow> nat list" where
  "assistantIndices ms = filter (\<lambda>i. m_role (ms ! i) = RAssistant) [0 ..< length ms]"

definition getMessagesForLLM :: "AgentConfig \<Rightarrow> LLMMessage list \<Rightarrow> LLMMessage list" where
  "getMessagesForLLM cfg ms =
     (case cfg_maxContextTurns cfg of
        None \<Rightarrow> ms
      | Some maxTurns \<Rightarrow>
          if maxTurns = 0 then ms
          else (let idx = assistantIndices ms
                in if length idx \<le> maxTurns then ms
                   else take 2 ms @ drop (idx ! (length idx - maxTurns)) ms))"

definition isRetryableError :: "string \<Rightarrow> bool" where
  "isRetryableError errorMsg =
     (let msg = toLowerCase errorMsg
      in str_includes msg ''429'' \<or> str_includes msg ''rate limit''
         \<or> str_includes msg ''500'' \<or> str_includes msg ''502'' \<or> str_includes msg ''503''
         \<or> str_includes msg ''timeout'' \<or> str_includes msg ''econnreset'')"

text \<open>\<open>callLLMWithRetry\<close>, for the attempts \<open>LLM_MAX_RETRIES - left, ..., LLM_MAX_RETRIES\<close>;
  the delays between attempts do nothing observable.\<close>

fun callLLM_attempts ::
  "'w agent_env \<Rightarrow> AgentConfig \<Rightarrow> nat \<Rightarrow> 'w agent \<Rightarrow> LLMResponse option \<times> 'w agent" where
  "callLLM_attempts env cfg 0 st =
     (case chat env (getMessagesForLLM cfg (ag_messages st)) (ag_world st) of
        (Inr response, w) \<Rightarrow> (Some response, st\<lparr>ag_world := w\<rparr>)
      | (Inl errorMsg, w) \<Rightarrow> (None, st\<lparr>ag_world := w, ag_lastError := Some errorMsg\<rparr>))"
| "callLLM_attempts env cfg (Suc left) st =
     (case chat env (getMessagesForLLM cfg (ag_messages st)) (ag_world st) of
        (Inr response, w) \<Rightarrow> (Some response, st\<lparr>ag_world := w\<rparr>)
      | (Inl errorMsg, w) \<Rightarrow>
          (let st1 = st\<lparr>ag_world := w, ag_lastError := Some errorMsg\<rparr>
           in if \<not> isRetryableError errorMsg then (None, st1)
              else callLLM_attempts env cfg left st1))"

definition callLLMWithRetry ::
  "'w agent_env \<Rightarrow> AgentConfig \<Rightarrow> 'w agent \<Rightarrow> LLMResponse option \<times> 'w agent" where
  "callLLMWithRetry env cfg st = callLLM_attempts env cfg LLM_MAX_RETRIES st"

text \<open>\<open>sanitizeToolArgs\<close>: string entries longer than 400 characters are cut.\<close>

definition sanitizeToolArgs :: "json \<Rightarrow> json" where
  "sanitizeToolArgs args =
     (case args of
        JObj kvs \<Rightarrow>
          JObj (map (\<lambda>(k, v). (k, case v of
                                     JStr t \<Rightarrow> if length t > 400 then JStr (take 400 t @ [ellipsis])
                                               else JStr t
                                   | _ \<Rightarrow> v)) kvs)
      | _ \<Rightarrow> args)"

text \<open>Property lookup on a parsed value; the last of equal keys wins, and a value that
  is not an object has no properties of interest.\<close>

definition field :: "json \<Rightarrow> string \<Rightarrow> json option" where
  "field v k = (case v of JObj kvs \<Rightarrow> map_of (rev kvs) k | _ \<Rightarrow> None)"

definition truthy :: "json option \<Rightarrow> bool" where
  "truthy v =
     (case v of
        None \<Rightarrow> False | Some JNull \<Rightarrow> False | Some (JBool b) \<Rightarrow> b | Some (JNum n) \<Rightarrow> n \<noteq> 0
      | Some (JStr t) \<Rightarrow> t \<noteq> [] | Some (JArr xs) \<Rightarrow> True | Some (JObj kvs) \<Rightarrow> True)"

definition as_text :: "'w agent_env \<Rightarrow> json option \<Rightarrow> string option" where
  "as_text env v =
     (case v of None \<Rightarrow> None | Some JNull \<Rightarrow> None | Some (JStr t) \<Rightarrow> Some t
      | Some x \<Rightarrow> Some (JSON_stringify env x))"

definition status_of_string :: "string \<Rightarrow> AgentResultStatus option" where
  "status_of_string t =
     (if t = ''completed'' then Some Completed
      else if t = ''failed'' then Some Failed
      else if t = ''needs_review'' then Some NeedsReview
      else None)"

text \<open>
  \<open>parseCompletion\<close>. \<open>JSON.parse\<close> throwing, or yielding \<open>null\<close> (whose property access
  throws), gives \<open>null\<close>. The status must be one of the three strings, summary and content
  must be truthy. The content is a string in every well-formed call; a truthy content
  that has no \<open>slice\<close> method makes the emit throw inside the \<open>try\<close>, which gives \<open>null\<close> too.
\<close>

definition parseCompletion ::
  "'w agent_env \<Rightarrow> AgentConfig \<Rightarrow> string \<Rightarrow> 'w agent \<Rightarrow> AgentResult option \<times> 'w agent" where
  "parseCompletion env cfg text st =
     (case JSON_parse env text of
        None \<Rightarrow> (None, st)
      | Some JNull \<Rightarrow> (None, st)
      | Some parsed \<Rightarrow>
          (case (case field parsed ''status'' of Some (JStr t) \<Rightarrow> status_of_string t | _ \<Rightarrow> None) of
             None \<Rightarrow> (None, st)
           | Some status \<Rightarrow>
               if \<not> truthy (field parsed ''summary'') \<or> \<not> truthy (field parsed ''content'')
               then (None, st)
               else (case field parsed ''content'' of
                       Some (JStr taskContent) \<Rightarrow>
                         (let result = buildResult env cfg status [] (Some taskContent)
                                         (as_text env (field parsed ''handoff_notes''))
                                         (as_text env (field parsed ''review_notes'')) st
                          in (Some result,
                              emit (AgentComplete (ag_agentId st) status (take 100 taskContent)) st))
                     | Some (JArr xs) \<Rightarrow>
                         (let result = buildResult env cfg status []
                                         (as_text env (Some (JArr xs)))
                                         (as_text env (field parsed ''handoff_notes''))
                                         (as_text env (field parsed ''review_notes'')) st
                          in (Some result,
                              emit (AgentComplete (ag_agentId st) status
                                      (JSON_stringify env (JArr (take 100 xs)))) st))
                     | _ \<Rightarrow> (None, st))))"

definition tool_message :: "string \<Rightarrow> string \<Rightarrow> LLMMessage" where
  "tool_message c i = \<lparr>m_role = RTool, m_content = c, m_toolCalls = None, m_toolCallId = Some i\<rparr>"

text \<open>\<open>executeToolCalls\<close>: the calls in order; a result ends the agent, \<open>None\<close> lets the
  turn loop go on.\<close>

fun executeToolCalls ::
  "'w agent_env \<Rightarrow> AgentConfig \<Rightarrow> LLMToolCall list \<Rightarrow> 'w agent \<Rightarrow> AgentResult option \<times> 'w agent" where
  "executeToolCalls env cfg [] st = (None, st)"
| "executeToolCalls env cfg (toolCall # rest) st =
     (let st1 = emit (AgentToolCall (ag_agentId st) (tc_name toolCall)
                        (sanitizeToolArgs (tc_arguments toolCall))) st
      in case toolMap env (tc_name toolCall) of
           None \<Rightarrow>
             executeToolCalls env cfg rest
               (emit (AgentToolResult (ag_agentId st) (tc_name toolCall) True)
                  (push (tool_message (''Unknown tool: '' @ tc_name toolCall) (tc_id toolCall)) st1))
         | Some execute \<Rightarrow>
             (case execute (tc_arguments toolCall) (ag_world st1) of
                (Inr result, w) \<Rightarrow>
                  (let st2 = emit (AgentToolResult (ag_agentId st) (tc_name toolCall)
                                     (isError result))
                               (push (tool_message (content result) (tc_id toolCall))
                                  (st1\<lparr>ag_world := w\<rparr>))
                   in if tc_name toolCall = ''complete_task''
                      then (case parseCompletion env cfg (content result) st2 of
                              (Some parsed, st3) \<Rightarrow> (Some parsed, st3)
                            | (None, st3) \<Rightarrow>
                                executeToolCalls env cfg rest
                                  (push (message RUser
                                     (''Your complete_task call had an invalid format. Please call ''
                                      @ ''complete_task again with valid status ''
                                      @ ''(completed/failed/needs_review), summary, and content fields.''))
                                     st3))
                      else executeToolCalls env cfg rest st2)
              | (Inl err, w) \<Rightarrow>
                  executeToolCalls env cfg rest
                    (emit (AgentToolResult (ag_agentId st) (tc_name toolCall) True)
                       (push (tool_message (''Tool execution error: '' @ err) (tc_id toolCall))
                          (st1\<lparr>ag_world := w\<rparr>)))))"

text \<open>The key of a turn's tool calls: \<open>name:JSON.stringify(arguments)\<close> joined by \<open>|\<close>.\<close>

definition call_key :: "'w agent_env \<Rightarrow> LLMToolCall list \<Rightarrow> string" where
  "call_key env currentCalls =
     join ''|'' (map (\<lambda>tc. tc_name tc @ '':'' @ JSON_stringify env (tc_arguments tc)) currentCalls)"

text \<open>\<open>isStuckLoop\<close>: push the key, keep the last three, and compare them when there are
  three.\<close>

definition isStuckLoop ::
  "'w agent_env \<Rightarrow> LLMToolCall list \<Rightarrow> 'w agent \<Rightarrow> bool \<times> 'w agent" where
  "isStuckLoop env currentCalls st =
     (let pushed = ag_recentToolCalls st @ [call_key env currentCalls];
          recent = (if length pushed > MAX_CONSECUTIVE_DUPLICATES then tl pushed else pushed);
          st1 = st\<lparr>ag_recentToolCalls := recent\<rparr>
      in if length recent < MAX_CONSECUTIVE_DUPLICATES then (False, st1)
         else (list_all (\<lambda>k. k = hd recent) recent, st1))"

definition STUCK_SUMMARY :: string where
  "STUCK_SUMMARY = ''Agent appeared stuck in a loop '' @ [CHR 0x97]
                   @ '' repeated the same tool call multiple times''"

text \<open>The turn loop's body, in three parts. First: announce the turn and, on the last turn,
  append the final-turn instruction.\<close>

definition begin_turn :: "AgentConfig \<Rightarrow> nat \<Rightarrow> 'w agent \<Rightarrow> 'w agent" where
  "begin_turn cfg turn st =
     (let st1 = emit (AgentTurn (ag_agentId st) turn (cfg_maxTurns cfg)) st
      in if turn = cfg_maxTurns cfg
         then push (message RUser
                (''This is your FINAL turn. You MUST call complete_task now with ''
                 @ ''your best result so far. Do not call any other tools.'')) st1
         else st1)"

text \<open>Second: account for the response, show its text, and append the assistant message
  (with the tool calls when there are any; nothing when there is neither text nor call).\<close>

definition record_response :: "LLMResponse \<Rightarrow> 'w agent \<Rightarrow> 'w agent" where
  "record_response response st =
     (let st4 = accumulateUsage (r_usage response) st;
          body = (case r_content response of None \<Rightarrow> [] | Some c \<Rightarrow> c);
          st5 = (if trim body \<noteq> []
                 then emit (AgentContent (ag_agentId st)
                              (if length body > 2000
                               then take 2000 body @ [nl] @ ''['' @ [ellipsis] @ '' truncated]''
                               else body)) st4
                 else st4)
      in if body \<noteq> []
         then push \<lparr>m_role = RAssistant, m_content = body,
                    m_toolCalls = (if r_toolCalls response \<noteq> []
                                   then Some (r_toolCalls response) else None),
                    m_toolCallId = None\<rparr> st5
         else if r_toolCalls response \<noteq> []
         then push \<lparr>m_role = RAssistant, m_content = [],
                    m_toolCalls = Some (r_toolCalls response),
                    m_toolCallId = None\<rparr> st5
         else st5)"

text \<open>Third: without tool calls the loop goes on; otherwise the stuck-loop check comes
  before any tool is executed.\<close>

definition act_on_response ::
  "'w agent_env \<Rightarrow> AgentConfig \<Rightarrow> LLMResponse \<Rightarrow> 'w agent \<Rightarrow> AgentResult option \<times> 'w agent" where
  "act_on_response env cfg response st =
     (if r_toolCalls response = [] then (None, st)
      else (case isStuckLoop env (r_toolCalls response) st of
              (True, st1) \<Rightarrow>
                (Some (buildResult env cfg NeedsReview STUCK_SUMMARY None None None st1), st1)
            | (False, st1) \<Rightarrow> executeToolCalls env cfg (r_toolCalls response) st1))"

text \<open>One iteration of the turn loop: a result when the agent returns in this turn,
  \<open>None\<close> when the loop goes on.\<close>

definition turn_body ::
  "'w agent_env \<Rightarrow> AgentConfig \<Rightarrow> nat \<Rightarrow> 'w agent \<Rightarrow> AgentResult option \<times> 'w agent" where
  "turn_body env cfg turn st =
     (if signal_aborted env (ag_world st)
      then (Some (buildResult env cfg Failed ''Aborted by user'' None None None st), st)
      else (case callLLMWithRetry env cfg (begin_turn cfg turn st) of
              (None, st3) \<Rightarrow>
                (Some (buildResult env cfg Failed
                         (''LLM call failed after retries: ''
                          @ (case ag_lastError st3 of None \<Rightarrow> ''unknown error'' | Some e \<Rightarrow> e))
                         None None None st3), st3)
            | (Some response, st3) \<Rightarrow>
                act_on_response env cfg response (record_response response st3)))"

text \<open>The turn loop \<open>for (turn = 1; turn <= maxTurns; turn++)\<close> from a given turn on.\<close>

function run_from ::
  "'w agent_env \<Rightarrow> AgentConfig \<Rightarrow> nat \<Rightarrow> 'w agent \<Rightarrow> AgentResult \<times> 'w agent" where
  "run_from env cfg turn st =
     (if turn \<le> cfg_maxTurns cfg
      then (case turn_body env cfg turn st of
              (Some result, st') \<Rightarrow> (result, st')
            | (None, st') \<Rightarrow> run_from env cfg (Suc turn) st')
      else (buildResult env cfg NeedsReview ''Agent reached maximum turns without completing''
              None None None st, st))"
  by pat_completeness auto
termination
  by (relation "measure (\<lambda>(env, cfg, turn, st). Suc (cfg_maxTurns cfg) - turn)") auto

declare run_from.simps [simp del]

text \<open>\<open>AgentRuntime.run\<close>: announce the agent, then loop from turn 1.\<close>

definition run :: "'w agent_env \<Rightarrow> AgentConfig \<Rightarrow> 'w agent \<Rightarrow> AgentResult \<times> 'w agent" where
  "run env cfg st =
     run_from env cfg 1
       (emit (AgentSpawn (ag_agentId st) (cfg_role cfg) (ag_parentAgentId st) (ag_stepId st)
                (case find (\<lambda>m. m_role m = RUser) (ag_messages st) of
                   None \<Rightarrow> [] | Some m \<Rightarrow> m_content m)) st)"

section \<open>The claims' words about the agent runtime\<close>

text \<open>The tool-call sequences of the tool-calling turns, read off a conversation log: every
  response with tool calls is logged as one assistant message that carries them.\<close>

definition tool_turns :: "LLMMessage list \<Rightarrow> LLMToolCall list list" where
  "tool_turns ms =
     concat (map (\<lambda>m. case m_toolCalls m of
                         Some tcs \<Rightarrow> if m_role m = RAssistant then [tcs] else []
                       | None \<Rightarrow> []) ms)"





definition turn_keys :: "'w agent_env \<Rightarrow> LLMMessage list \<Rightarrow> string list" where
  "turn_keys env ms = map (call_key env) (tool_turns ms)"













definition npm_test_result :: ToolExecutionResult where
  "npm_test_result = \<lparr>content = ''stdout:'' @ [nl] @ ''out'' @ [nl, nl] @ ''exit code: 1'',
                       isError = True\<rparr>"

section \<open>Event bus (events/EventBus.ts)\<close>

text \<open>
  The bus wraps a Node.js \<open>EventEmitter\<close> with the single event name \<open>event\<close>. A handler
  is a function reference, here an identity and a reaction: given the event and the
  subscribers' state \<open>'s\<close> it returns the new state, or throws (\<open>Inl\<close> the message).
  \<open>emitter.emit\<close> calls the listeners one after the other, in the order they were added,
  inside the call; an exception of a listener leaves \<open>emit\<close> at once and reaches the
  caller.
\<close>

type_synonym ('e, 's) handler = "nat \<times> ('e \<Rightarrow> 's \<Rightarrow> string + 's)"

record ('e, 's) EventBus =
  listeners :: "('e, 's) handler list"

definition new_bus :: "('e, 's) EventBus" where
  "new_bus = \<lparr>listeners = []\<rparr>"

definition bus_on :: "('e, 's) handler \<Rightarrow> ('e, 's) EventBus \<Rightarrow> ('e, 's) EventBus" where
  "bus_on h bus = bus\<lparr>listeners := listeners bus @ [h]\<rparr>"

text \<open>\<open>off\<close> removes the most recently added registration of the handler.\<close>

fun remove_first :: "nat \<Rightarrow> ('e, 's) handler list \<Rightarrow> ('e, 's) handler list" where
  "remove_first i [] = []"
| "remove_first i (h # hs) = (if fst h = i then hs else h # remove_first i hs)"

definition bus_off :: "nat \<Rightarrow> ('e, 's) EventBus \<Rightarrow> ('e, 's) EventBus" where
  "bus_off i bus = bus\<lparr>listeners := rev (remove_first i (rev (listeners bus)))\<rparr>"

definition removeAllListeners :: "('e, 's) EventBus \<Rightarrow> ('e, 's) EventBus" where
  "removeAllListeners bus = bus\<lparr>listeners := []\<rparr>"

text \<open>Delivery: the handlers invoked, in order, whether \<open>emit\<close> returned or threw, and the
  subscribers' state afterwards.\<close>

fun deliver ::
  "('e, 's) handler list \<Rightarrow> 'e \<Rightarrow> 's \<Rightarrow> nat list \<times> (string + unit) \<times> 's" where
  "deliver [] ev s = ([], Inr (), s)"
| "deliver (h # hs) ev s =
     (case snd h ev s of
        Inl err \<Rightarrow> ([fst h], Inl err, s)
      | Inr s' \<Rightarrow> (case deliver hs ev s' of (invoked, r, s'') \<Rightarrow> (fst h # invoked, r, s'')))"

definition bus_emit :: "'e \<Rightarrow> ('e, 's) EventBus \<Rightarrow> 's \<Rightarrow> nat list \<times> (string + unit) \<times> 's" where
  "bus_emit ev bus s = deliver (listeners bus) ev s"

text \<open>A handler throws on an event in some state.\<close>

definition throws_on :: "('e, 's) handler \<Rightarrow> 'e \<Rightarrow> 's \<Rightarrow> bool" where
  "throws_on h ev s = (case snd h ev s of Inl err \<Rightarrow> True | Inr s' \<Rightarrow> False)"

text \<open>Two example subscribers over a log of what each received: one records the event, one
  throws on every event.\<close>

definition recorder :: "nat \<Rightarrow> ('e, (nat \<times> 'e) list) handler" where
  "recorder i = (i, \<lambda>ev s. Inr (s @ [(i, ev)]))"


section \<open>Workflow engine: the entry point (workflow/WorkflowEngine.ts)\<close>

record WorkflowResult =
  w_status :: WorkflowStatus
  w_artifacts :: "Artifact list"
  w_agentResults :: "AgentResult list"

text \<open>What \<open>run\<close> rejects with: a \<open>WorkflowError\<close> (wrapping whatever was caught), or the
  error of a subscriber that left an \<open>emit\<close> outside the \<open>try\<close> or inside the \<open>catch\<close>.\<close>

datatype thrown = WorkflowError string | SubscriberError string

text \<open>The handler the \<open>OversightTracker\<close> registers in \<open>attach\<close>: it only updates the
  tracker's own tables and has no case for the workflow events; it never throws.\<close>

definition tracker_handler :: "nat \<Rightarrow> (TaskBotEvent, 's) handler" where
  "tracker_handler i = (i, \<lambda>ev s. Inr s)"

text \<open>
  \<open>WorkflowEngine.run(taskDescription, taskId)\<close>. The parameter \<open>runTask\<close> stands for
  \<open>this.runTask({description, depth: 0})\<close> with everything below it: from the
  subscribers' state it gives the events it emitted, whether it returned a result or
  threw, and the state afterwards. \<open>tracker\<close> is the identity of the tracker's handler.
  The outcome comes with every event handed to \<open>eventBus.emit\<close>, in order, the
  subscribers' state and the bus at the end (the \<open>finally\<close> block detaches the tracker;
  an exception before the \<open>try\<close> leaves it attached).
\<close>

definition on_caught ::
  "(TaskBotEvent, 's) EventBus \<Rightarrow> nat \<Rightarrow> string \<Rightarrow> string \<Rightarrow> TaskBotEvent list \<Rightarrow> 's
     \<Rightarrow> (thrown + WorkflowResult) \<times> TaskBotEvent list \<times> 's \<times> (TaskBotEvent, 's) EventBus" where
  "on_caught bus tracker task_id msg emitted s =
     (case bus_emit (WorkflowComplete task_id WS_failed) bus s of
        (invoked, Inr u, s') \<Rightarrow>
          (Inl (WorkflowError msg), emitted @ [WorkflowComplete task_id WS_failed], s',
           bus_off tracker bus)
      | (invoked, Inl err, s') \<Rightarrow>
          (Inl (SubscriberError err), emitted @ [WorkflowComplete task_id WS_failed], s',
           bus_off tracker bus))"

definition WorkflowEngine_run ::
  "('s \<Rightarrow> inner_event list \<times> (string + WorkflowResult) \<times> 's) \<Rightarrow> nat
     \<Rightarrow> (TaskBotEvent, 's) EventBus \<Rightarrow> string \<Rightarrow> string \<Rightarrow> 's
     \<Rightarrow> (thrown + WorkflowResult) \<times> TaskBotEvent list \<times> 's \<times> (TaskBotEvent, 's) EventBus" where
  "WorkflowEngine_run runTask tracker bus0 taskDescription task_id s0 =
     (let bus = bus_on (tracker_handler tracker) bus0;
          start = WorkflowStart ''babylon-cycle'' task_id taskDescription
      in case bus_emit start bus s0 of
           (invoked, Inl err, s1) \<Rightarrow> (Inl (SubscriberError err), [start], s1, bus)
         | (invoked, Inr u, s1) \<Rightarrow>
             (case runTask s1 of
                (below, Inr result, s2) \<Rightarrow>
                  (let emitted = start # map Below below;
                       complete = WorkflowComplete task_id (w_status result)
                   in case bus_emit complete bus s2 of
                        (invoked', Inr u', s3) \<Rightarrow>
                          (Inr result, emitted @ [complete], s3, bus_off tracker bus)
                      | (invoked', Inl err, s3) \<Rightarrow>
                          on_caught bus tracker task_id err (emitted @ [complete]) s3)
              | (below, Inl msg, s2) \<Rightarrow>
                  on_caught bus tracker task_id msg (start # map Below below) s2))"

section \<open>The claims' words about events\<close>

definition is_start :: "TaskBotEvent \<Rightarrow> bool" where
  "is_start ev = (case ev of WorkflowStart n i d \<Rightarrow> True | _ \<Rightarrow> False)"

definition is_complete :: "TaskBotEvent \<Rightarrow> bool" where
  "is_complete ev = (case ev of WorkflowComplete i st \<Rightarrow> True | _ \<Rightarrow> False)"

text \<open>No subscriber of the bus throws while it handles a workflow event.\<close>

definition quiet_on_workflow :: "(TaskBotEvent, 's) EventBus \<Rightarrow> bool" where
  "quiet_on_workflow bus =
     (\<forall>h \<in> set (listeners bus). \<forall>ev s. is_start ev \<or> is_complete ev \<longrightarrow> \<not> throws_on h ev s)"

text \<open>The events a run handed to the bus.\<close>

definition emitted_by ::
  "(thrown + WorkflowResult) \<times> TaskBotEvent list \<times> 's \<times> (TaskBotEvent, 's) EventBus
     \<Rightarrow> TaskBotEvent list" where
  "emitted_by r = fst (snd r)"

text \<open>Example: a run whose task completes, on a bus with one subscriber that throws when
  it is shown a completed workflow (and records everything else).\<close>

definition picky :: "(TaskBotEvent, (nat \<times> TaskBotEvent) list) handler" where
  "picky = (1, \<lambda>ev s. if ev = WorkflowComplete ''task-1'' WS_completed
                        then Inl ''cannot render'' else Inr (s @ [(1, ev)]))"

definition done_task ::
  "(nat \<times> TaskBotEvent) list
     \<Rightarrow> inner_event list \<times> (string + WorkflowResult) \<times> (nat \<times> TaskBotEvent) list" where
  "done_task s = ([], Inr \<lparr>w_status = WS_completed, w_artifacts = [], w_agentResults = []\<rparr>, s)"

definition failing_task ::
  "(nat \<times> TaskBotEvent) list
     \<Rightarrow> inner_event list \<times> (string + WorkflowResult) \<times> (nat \<times> TaskBotEvent) list" where
  "failing_task s = ([AgentTurn ''a'' 1 3], Inl ''mock provider failure'', s)"

section \<open>Workflow engine: decomposition (workflow/WorkflowEngine.ts)\<close>

text \<open>A subtask of a decomposition plan. The plan is planner output parsed from JSON, so
  the file scope may be missing (the engine reads it as \<open>fileScope ?? []\<close>).\<close>

record SubtaskDef =
  st_description :: string
  st_fileScope :: "string list option"
  st_skipAnalysis :: bool

record DecompositionPlan =
  p_subtasks :: "SubtaskDef list"
  p_parallel :: bool
  p_setupTask :: "SubtaskDef option"

text \<open>\<open>filterDuplicateSetupSubtask\<close>: without a setup task the subtasks are returned as they
  are; otherwise a subtask is dropped when its trimmed, lower-cased description equals the
  setup's, or when the setup's description has at least two words longer than two
  characters and every one of them occurs in the subtask's description.\<close>

definition setup_words :: "string \<Rightarrow> string list" where
  "setup_words setupDesc = filter (\<lambda>w. length w > 2) (split_ws setupDesc)"

definition keeps_subtask :: "string \<Rightarrow> SubtaskDef \<Rightarrow> bool" where
  "keeps_subtask setupDesc s =
     (let d = toLowerCase (trim (st_description s))
      in if d = setupDesc then False
         else (let words = setup_words setupDesc;
                   sameMeaning = (length words \<ge> 2 \<and> list_all (\<lambda>w. str_includes d w) words)
               in \<not> sameMeaning))"

definition filterDuplicateSetupSubtask :: "DecompositionPlan \<Rightarrow> SubtaskDef list" where
  "filterDuplicateSetupSubtask plan =
     (case p_setupTask plan of
        None \<Rightarrow> p_subtasks plan
      | Some setupTask \<Rightarrow>
          (let setupDesc = toLowerCase (trim (st_description setupTask))
           in filter (keeps_subtask setupDesc) (p_subtasks plan)))"

text \<open>\<open>haveOverlappingFileScopes\<close>: \<open>normalize\<close> drops one trailing slash and turns the empty
  path into \<open>.\<close>; the loops over \<open>i < j\<close> return at the first overlapping pair.\<close>

definition normalize :: "string \<Rightarrow> string" where
  "normalize p =
     (let q = (if endsWith p ''/'' \<and> p \<noteq> [] then butlast p else p)
      in if q = [] then ''.'' else q)"

definition scope_of :: "SubtaskDef \<Rightarrow> string list" where
  "scope_of s = map normalize (case st_fileScope s of None \<Rightarrow> [] | Some ps \<Rightarrow> ps)"

definition paths_overlap :: "string \<Rightarrow> string \<Rightarrow> bool" where
  "paths_overlap pa pb = (pa = pb \<or> startsWith pa (pb @ ''/'') \<or> startsWith pb (pa @ ''/''))"

definition pair_overlaps :: "string list \<Rightarrow> string list \<Rightarrow> bool" where
  "pair_overlaps a b =
     (if a = [] \<or> b = [] then True
      else list_ex (\<lambda>pa. list_ex (\<lambda>pb. paths_overlap pa pb) b) a)"

fun haveOverlappingFileScopes :: "SubtaskDef list \<Rightarrow> bool" where
  "haveOverlappingFileScopes [] = False"
| "haveOverlappingFileScopes (s # rest) =
     (list_ex (\<lambda>t. pair_overlaps (scope_of s) (scope_of t)) rest
      \<or> haveOverlappingFileScopes rest)"

definition STEWARD_VOICE_PREFIX :: string where
  "STEWARD_VOICE_PREFIX = ''The Steward (voice of the scriptorium) reminds you: ''"

definition formatStewardVoice :: "string \<Rightarrow> string" where
  "formatStewardVoice nudge = (if trim nudge = [] then [] else STEWARD_VOICE_PREFIX @ trim nudge)"

record RunTaskOptions =
  o_description :: string
  o_depth :: nat
  o_fileScope :: "string list option"
  o_skipAnalysis :: bool
  o_parentContext :: "string option"
  o_subtaskId :: "string option"

record OversightContext =
  oc_originalDescription :: string
  oc_depth :: nat
  oc_currentSubtaskIndex :: nat
  oc_subtaskDescriptions :: "string list"

text \<open>The engine's fields that the decomposition touches; \<open>e_orgChart\<close> holds the children
  added (child, parent, description, depth), \<open>e_nudgeOutcome\<close> what the oversight tracker
  was told, and \<open>'w\<close> is everything else.\<close>

record 'w engine =
  e_rootTaskId :: "string option"
  e_compositeOversightContext :: "OversightContext option"
  e_oversightCycleCount :: nat
  e_pendingOversightNudge :: "string option"
  e_lastAppliedNudge :: "string option"
  e_hasTracker :: bool
  e_nudgeOutcome :: "(string \<times> WorkflowStatus) option"
  e_orgChart :: "(string \<times> string \<times> string \<times> nat) list"
  e_world :: 'w

text \<open>
  What the decomposition calls, as parameters acting on the engine: \<open>randomUUID\<close>, the
  recursive \<open>runTask\<close> and \<open>maybeOversightCheckIn\<close>. The last two give the events they
  emitted and whether they returned or threw (\<open>Inl\<close>). Events are appended to the list a
  function returns; subscribers are taken not to throw here.
\<close>

record 'w engine_ops =
  call_randomUUID :: "'w engine \<Rightarrow> string \<times> 'w engine"
  call_runTask :: "RunTaskOptions \<Rightarrow> 'w engine \<Rightarrow> inner_event list \<times> (string + WorkflowResult) \<times> 'w engine"
  call_maybeOversightCheckIn :: "'w engine \<Rightarrow> inner_event list \<times> (string + unit) \<times> 'w engine"

definition addChild :: "string \<Rightarrow> string \<Rightarrow> string \<Rightarrow> nat \<Rightarrow> 'w engine \<Rightarrow> 'w engine" where
  "addChild childId parentId description depth e =
     e\<lparr>e_orgChart := e_orgChart e @ [(childId, parentId, description, depth)]\<rparr>"

definition is_set :: "string option \<Rightarrow> bool" where
  "is_set v = (case v of None \<Rightarrow> False | Some t \<Rightarrow> t \<noteq> [])"

text \<open>One iteration of the sequential loop, for subtask \<open>i\<close>: the events emitted, the
  child's result or the exception that ends the loop, and the engine afterwards.\<close>

definition sequential_step ::
  "'w engine_ops \<Rightarrow> string \<Rightarrow> string \<Rightarrow> nat \<Rightarrow> nat \<Rightarrow> nat \<Rightarrow> nat \<Rightarrow> SubtaskDef \<Rightarrow> 'w engine
     \<Rightarrow> inner_event list \<times> (string + WorkflowResult) \<times> 'w engine" where
  "sequential_step ops task_id originalDescription depth offset count i subtask e =
     (case call_randomUUID ops e of
        (subtaskId, e1) \<Rightarrow>
          (let e2 = (case e_compositeOversightContext e1 of
                       None \<Rightarrow> e1
                     | Some c \<Rightarrow> e1\<lparr>e_compositeOversightContext :=
                                      Some (c\<lparr>oc_currentSubtaskIndex := i\<rparr>)\<rparr>)
           in case call_maybeOversightCheckIn ops e2 of
                (evs0, Inl err, e3) \<Rightarrow> (evs0, Inl err, e3)
              | (evs0, Inr u, e3) \<Rightarrow>
                  (let nudged = is_set (e_pendingOversightNudge e3);
                       parentContext =
                         ''Subtask of: '' @ originalDescription
                         @ (if nudged
                            then [nl, nl] @ formatStewardVoice (the (e_pendingOversightNudge e3))
                            else []);
                       e4 = (if nudged
                             then e3\<lparr>e_lastAppliedNudge := e_pendingOversightNudge e3,
                                     e_pendingOversightNudge := None\<rparr>
                             else e3);
                       e5 = addChild subtaskId task_id (st_description subtask) (depth + 1) e4;
                       start = SubtaskStart task_id subtaskId (st_description subtask)
                                 (i + offset) count
                   in case call_runTask ops
                             \<lparr>o_description = st_description subtask, o_depth = depth + 1,
                              o_fileScope = st_fileScope subtask,
                              o_skipAnalysis = st_skipAnalysis subtask,
                              o_parentContext = Some parentContext,
                              o_subtaskId = Some subtaskId\<rparr> e5 of
                        (evs1, Inl err, e6) \<Rightarrow> (evs0 @ [start] @ evs1, Inl err, e6)
                      | (evs1, Inr result, e6) \<Rightarrow>
                          (let e7 = (if is_set (e_lastAppliedNudge e6) \<and> e_hasTracker e6
                                     then e6\<lparr>e_nudgeOutcome :=
                                               Some (the (e_lastAppliedNudge e6), w_status result),
                                             e_lastAppliedNudge := None\<rparr>
                                     else e6)
                           in (evs0 @ [start] @ evs1
                               @ [SubtaskComplete subtaskId (w_status result)],
                               Inr result, e7)))))"

text \<open>The sequential loop from subtask \<open>i\<close> on: it stops after a failed child
  (\<open>if (result.status === "failed") break\<close>) and on an exception.\<close>

fun run_sequential ::
  "'w engine_ops \<Rightarrow> string \<Rightarrow> string \<Rightarrow> nat \<Rightarrow> nat \<Rightarrow> nat \<Rightarrow> nat \<Rightarrow> SubtaskDef list \<Rightarrow> 'w engine
     \<Rightarrow> inner_event list \<times> (string + WorkflowResult list) \<times> 'w engine" where
  "run_sequential ops task_id originalDescription depth offset count i [] e = ([], Inr [], e)"
| "run_sequential ops task_id originalDescription depth offset count i (subtask # rest) e =
     (case sequential_step ops task_id originalDescription depth offset count i subtask e of
        (evs, Inl err, e1) \<Rightarrow> (evs, Inl err, e1)
      | (evs, Inr result, e1) \<Rightarrow>
          if w_status result = WS_failed then (evs, Inr [result], e1)
          else (case run_sequential ops task_id originalDescription depth offset count
                       (Suc i) rest e1 of
                  (evs', Inl err, e2) \<Rightarrow> (evs @ evs', Inl err, e2)
                | (evs', Inr results, e2) \<Rightarrow> (evs @ evs', Inr (result # results), e2)))"

text \<open>The parallel branch. First an identity, an org-chart child and a \<open>subtask:start\<close> for
  every subtask; then all children; then a \<open>subtask:complete\<close> for every subtask. The
  children run concurrently in the source (\<open>Promise.all\<close>); the model runs them one after
  the other in list order, which is one of the possible schedules.\<close>

fun allocate_ids :: "'w engine_ops \<Rightarrow> 'a list \<Rightarrow> 'w engine \<Rightarrow> string list \<times> 'w engine" where
  "allocate_ids ops [] e = ([], e)"
| "allocate_ids ops (x # xs) e =
     (case call_randomUUID ops e of
        (i, e1) \<Rightarrow> (case allocate_ids ops xs e1 of (ids, e2) \<Rightarrow> (i # ids, e2)))"

fun announce_all ::
  "string \<Rightarrow> nat \<Rightarrow> nat \<Rightarrow> nat \<Rightarrow> nat \<Rightarrow> (SubtaskDef \<times> string) list \<Rightarrow> 'w engine
     \<Rightarrow> inner_event list \<times> 'w engine" where
  "announce_all task_id depth offset count i [] e = ([], e)"
| "announce_all task_id depth offset count i ((subtask, subtaskId) # rest) e =
     (case announce_all task_id depth offset count (Suc i) rest
             (addChild subtaskId task_id (st_description subtask) (depth + 1) e) of
        (evs, e1) \<Rightarrow>
          (SubtaskStart task_id subtaskId (st_description subtask) (i + offset) count # evs, e1))"

fun run_children ::
  "'w engine_ops \<Rightarrow> string \<Rightarrow> nat \<Rightarrow> (SubtaskDef \<times> string) list \<Rightarrow> 'w engine
     \<Rightarrow> inner_event list \<times> (string + WorkflowResult list) \<times> 'w engine" where
  "run_children ops originalDescription depth [] e = ([], Inr [], e)"
| "run_children ops originalDescription depth ((subtask, subtaskId) # rest) e =
     (case call_runTask ops
             \<lparr>o_description = st_description subtask, o_depth = depth + 1,
              o_fileScope = st_fileScope subtask, o_skipAnalysis = st_skipAnalysis subtask,
              o_parentContext = Some (''Subtask of: '' @ originalDescription),
              o_subtaskId = Some subtaskId\<rparr> e of
        (evs, Inl err, e1) \<Rightarrow> (evs, Inl err, e1)
      | (evs, Inr result, e1) \<Rightarrow>
          (case run_children ops originalDescription depth rest e1 of
             (evs', Inl err, e2) \<Rightarrow> (evs @ evs', Inl err, e2)
           | (evs', Inr results, e2) \<Rightarrow> (evs @ evs', Inr (result # results), e2)))"

definition run_parallel ::
  "'w engine_ops \<Rightarrow> string \<Rightarrow> string \<Rightarrow> nat \<Rightarrow> nat \<Rightarrow> nat \<Rightarrow> SubtaskDef list \<Rightarrow> 'w engine
     \<Rightarrow> inner_event list \<times> (string + WorkflowResult list) \<times> 'w engine" where
  "run_parallel ops task_id originalDescription depth offset count subtasks e =
     (case allocate_ids ops subtasks e of
        (subtaskIds, e1) \<Rightarrow>
          (case announce_all task_id depth offset count 0 (zip subtasks subtaskIds) e1 of
             (starts, e2) \<Rightarrow>
               (case run_children ops originalDescription depth (zip subtasks subtaskIds) e2 of
                  (evs, Inl err, e3) \<Rightarrow> (starts @ evs, Inl err, e3)
                | (evs, Inr results, e3) \<Rightarrow>
                    (starts @ evs
                     @ map (\<lambda>(subtaskId, r). SubtaskComplete subtaskId (w_status r))
                         (zip subtaskIds results),
                     Inr results, e3))))"

text \<open>How the subtask phase of \<open>runDecomposition\<close> ends: the setup task failed (the method
  returns \<open>failed\<close>), or the subtasks ran and their results go on to the failure check and
  the coordinator.\<close>

datatype phase = SetupFailed | SubtaskResults "WorkflowResult list"

record 'w phase_output =
  po_events :: "inner_event list"
  po_logs :: "string list"
  po_outcome :: "string + phase"
  po_engine :: "'w engine"

definition DOWNGRADE_LOG :: string where
  "DOWNGRADE_LOG = ''Overlapping file scopes detected; running subtasks sequentially''"

definition phase_taskId :: "'w engine_ops \<Rightarrow> 'w engine \<Rightarrow> string \<times> 'w engine" where
  "phase_taskId ops e = (case e_rootTaskId e of Some t \<Rightarrow> (t, e) | None \<Rightarrow> call_randomUUID ops e)"

definition setup_offset :: "DecompositionPlan \<Rightarrow> nat" where
  "setup_offset plan = (case p_setupTask plan of None \<Rightarrow> 0 | Some s \<Rightarrow> 1)"

text \<open>The setup task, when the plan has one: its events, and its result or exception.\<close>

definition run_setup ::
  "'w engine_ops \<Rightarrow> string \<Rightarrow> string \<Rightarrow> nat \<Rightarrow> nat \<Rightarrow> SubtaskDef \<Rightarrow> 'w engine
     \<Rightarrow> inner_event list \<times> (string + WorkflowResult) \<times> 'w engine" where
  "run_setup ops task_id originalDescription depth count setupTask e =
     (case call_randomUUID ops e of
        (setupSubtaskId, e1) \<Rightarrow>
          (let e2 = addChild setupSubtaskId task_id (st_description setupTask) (depth + 1) e1;
               start = SubtaskStart task_id setupSubtaskId (st_description setupTask) 0 count
           in case call_runTask ops
                     \<lparr>o_description = st_description setupTask, o_depth = depth + 1,
                      o_fileScope = st_fileScope setupTask,
                      o_skipAnalysis = st_skipAnalysis setupTask,
                      o_parentContext = Some (''Setup task for: '' @ originalDescription),
                      o_subtaskId = Some setupSubtaskId\<rparr> e2 of
                (evs, Inl err, e3) \<Rightarrow> (start # evs, Inl err, e3)
              | (evs, Inr result, e3) \<Rightarrow>
                  (start # evs @ [SubtaskComplete setupSubtaskId (w_status result)],
                   Inr result, e3)))"

text \<open>
  \<open>runDecomposition\<close> up to the point where all subtask results are in (the failure check
  and the coordinator and management cycles follow). An exception and the early return
  pass through the \<open>finally\<close> block, which clears the oversight context. The relabelling
  of the org chart's root node as composite (at depth 0) is not part of the model.
\<close>

definition runDecomposition_subtasks ::
  "'w engine_ops \<Rightarrow> DecompositionPlan \<Rightarrow> string \<Rightarrow> nat \<Rightarrow> 'w engine \<Rightarrow> 'w phase_output" where
  "runDecomposition_subtasks ops plan originalDescription depth e0 =
     (case phase_taskId ops e0 of
        (task_id, e) \<Rightarrow>
          (let subtasks = filterDuplicateSetupSubtask plan;
               parallel = (p_parallel plan \<and> \<not> haveOverlappingFileScopes subtasks);
               logs = (if length subtasks < length (p_subtasks plan)
                       then [''Filtered '' @ show_nat (length (p_subtasks plan) - length subtasks)
                             @ '' duplicate setup subtask(s)'']
                       else [])
                      @ (if p_parallel plan \<and> \<not> parallel then [DOWNGRADE_LOG] else []);
               offset = setup_offset plan;
               totalWithSetup = offset + length subtasks;
               e1 = e\<lparr>e_compositeOversightContext :=
                        Some \<lparr>oc_originalDescription = originalDescription, oc_depth = depth,
                              oc_currentSubtaskIndex = 0,
                              oc_subtaskDescriptions = map st_description subtasks\<rparr>,
                      e_oversightCycleCount := 0\<rparr>;
               cleanup = (\<lambda>x. x\<lparr>e_compositeOversightContext := None\<rparr>);
               forks = ''The path forks '' @ [CHR 0x97] @ '' '' @ show_nat (length subtasks)
                       @ '' branches ('' @ (if parallel then ''parallel'' else ''sequential'')
                       @ '')'';
               branch = (\<lambda>evs0 logs0 e2.
                  (case (if parallel
                         then run_parallel ops task_id originalDescription depth offset
                                totalWithSetup subtasks e2
                         else run_sequential ops task_id originalDescription depth offset
                                totalWithSetup 0 subtasks e2) of
                     (evs, Inl err, e3) \<Rightarrow>
                       \<lparr>po_events = evs0 @ evs, po_logs = logs0, po_outcome = Inl err,
                        po_engine = cleanup e3\<rparr>
                   | (evs, Inr results, e3) \<Rightarrow>
                       \<lparr>po_events = evs0 @ evs, po_logs = logs0,
                        po_outcome = Inr (SubtaskResults results), po_engine = e3\<rparr>))
           in case p_setupTask plan of
                None \<Rightarrow>
                  branch [] (logs @ [forks]) e1
              | Some setupTask \<Rightarrow>
                  (case run_setup ops task_id originalDescription depth totalWithSetup
                          setupTask e1 of
                     (evs, Inl err, e2) \<Rightarrow>
                       \<lparr>po_events = evs,
                        po_logs = logs @ [''Running setup subtask before parallel work''],
                        po_outcome = Inl err, po_engine = cleanup e2\<rparr>
                   | (evs, Inr setupResult, e2) \<Rightarrow>
                       if w_status setupResult = WS_failed
                       then \<lparr>po_events = evs,
                             po_logs = logs @ [''Running setup subtask before parallel work''],
                             po_outcome = Inr SetupFailed, po_engine = cleanup e2\<rparr>
                       else branch evs
                              (logs @ [''Running setup subtask before parallel work'', forks])
                              e2)))"

section \<open>The claims' words about the decomposition\<close>

text \<open>C9 as the claim words it: the subtask's normalized description equals the setup's,
  or it contains at least two of the setup's words longer than two characters.\<close>

definition claimed_duplicate :: "SubtaskDef \<Rightarrow> SubtaskDef \<Rightarrow> bool" where
  "claimed_duplicate setupTask s =
     (let setupDesc = toLowerCase (trim (st_description setupTask));
          d = toLowerCase (trim (st_description s))
      in d = setupDesc
         \<or> length (filter (\<lambda>w. str_includes d w) (setup_words setupDesc)) \<ge> 2)"

text \<open>C9 as the specification's component section words it: the same string, or a fuzzy
  equivalent: the setup has at least two content words and all of them appear in the
  subtask's description.\<close>

definition duplicates_setup :: "SubtaskDef \<Rightarrow> SubtaskDef \<Rightarrow> bool" where
  "duplicates_setup setupTask s =
     (let setupDesc = toLowerCase (trim (st_description setupTask));
          d = toLowerCase (trim (st_description s))
      in d = setupDesc
         \<or> (length (setup_words setupDesc) \<ge> 2
             \<and> (\<forall>w \<in> set (setup_words setupDesc). str_includes d w)))"

text \<open>Two subtasks overlap: one of them has an empty scope, or two of their normalized
  paths are equal or one lies under the other.\<close>

definition scopes_overlap :: "SubtaskDef \<Rightarrow> SubtaskDef \<Rightarrow> bool" where
  "scopes_overlap s t =
     (scope_of s = [] \<or> scope_of t = []
      \<or> (\<exists>pa \<in> set (scope_of s). \<exists>pb \<in> set (scope_of t).
            pa = pb \<or> startsWith pa (pb @ ''/'') \<or> startsWith pb (pa @ ''/'')))"

text \<open>The events of a sequential run pair up: for the subtasks that ran, in declared
  order from index \<open>i\<close>, a \<open>subtask:start\<close> with the subtask's description and position
  and, later, the \<open>subtask:complete\<close> with the same identity and the child's status; what
  lies between belongs to the oversight check-in and to the child.\<close>

inductive paired ::
  "string \<Rightarrow> nat \<Rightarrow> nat \<Rightarrow> nat \<Rightarrow> SubtaskDef list \<Rightarrow> WorkflowResult list \<Rightarrow> inner_event list \<Rightarrow> bool"
  for task_id :: string and offset :: nat and count :: nat where
  paired_none: "paired task_id offset count i subtasks [] []"
| paired_next:
    "paired task_id offset count (Suc i) subtasks results evs \<Longrightarrow>
     paired task_id offset count i (s # subtasks) (r # results)
       (before @ [SubtaskStart task_id subtaskId (st_description s) (i + offset) count] @ during
        @ [SubtaskComplete subtaskId (w_status r)] @ evs)"

text \<open>Example engine: identities come from a counter, nothing is nudged, and a child fails
  exactly when its description is \<open>broken\<close>.\<close>

definition demo_ops :: "nat engine_ops" where
  "demo_ops =
     \<lparr>call_randomUUID = (\<lambda>e. (''id-'' @ show_nat (e_world e), e\<lparr>e_world := Suc (e_world e)\<rparr>)),
      call_runTask = (\<lambda>opts e. ([AgentTurn (o_description opts) 1 1],
                            Inr \<lparr>w_status = (if o_description opts = ''broken'' then WS_failed
                                               else WS_completed),
                                 w_artifacts = [], w_agentResults = []\<rparr>, e)),
      call_maybeOversightCheckIn = (\<lambda>e. ([], Inr (), e))\<rparr>"

definition demo_engine :: "nat engine" where
  "demo_engine =
     \<lparr>e_rootTaskId = Some ''root'', e_compositeOversightContext = None,
      e_oversightCycleCount = 0, e_pendingOversightNudge = None, e_lastAppliedNudge = None,
      e_hasTracker = True, e_nudgeOutcome = None, e_orgChart = [], e_world = 0\<rparr>"

definition mk_subtask :: "string \<Rightarrow> string list \<Rightarrow> SubtaskDef" where
  "mk_subtask d scope = \<lparr>st_description = d, st_fileScope = Some scope, st_skipAnalysis = True\<rparr>"

definition good_plan :: DecompositionPlan where
  "good_plan = \<lparr>p_subtasks = [mk_subtask ''api'' [''src/api''], mk_subtask ''tests'' [''src/api/test/'']],
                p_parallel = True, p_setupTask = None\<rparr>"

definition broken_plan :: DecompositionPlan where
  "broken_plan = \<lparr>p_subtasks = [mk_subtask ''broken'' [''src/api''], mk_subtask ''tests'' [''src/api/test/'']],
                  p_parallel = True, p_setupTask = None\<rparr>"

definition setup_plan :: DecompositionPlan where
  "setup_plan =
     \<lparr>p_subtasks = [mk_subtask ''  Initialize Project Structure '' [''.''],
                    mk_subtask ''structure: initialize the project tree'' [''.''],
                    mk_subtask ''document the project structure'' [''docs''],
                    mk_subtask ''write the parser'' [''src/parser'']],
      p_parallel = False,
      p_setupTask = Some (mk_subtask ''initialize project structure'' [''.''])\<rparr>"

section \<open>Output parsers (workflow/parsers.ts)\<close>

text \<open>
  The parsers turn the text an agent handed to \<open>complete_task\<close> into the records the engine
  routes on. \<open>JSON.parse\<close> is the runtime's: the parsers take it as the parameter \<open>parse\<close>, \<open>None\<close>
  standing for the \<open>SyntaxError\<close> it throws. The type annotations of the source are casts,
  nothing is checked at run time, so a field holds whatever JSON value the text gave it;
  a missing field is \<open>None\<close> (\<open>undefined\<close>). The log line the analyzer's fallback writes is
  not part of the model.
\<close>

definition DEFAULT_COMPLEXITY :: real where
  "DEFAULT_COMPLEXITY = 0.5"

record AnalyzerOutput =
  an_complexity :: TaskComplexity
  an_summary :: json
  an_affectedFiles :: json
  an_recommendedApproach :: json

text \<open>\<open>v ?? d\<close>: the default replaces \<open>undefined\<close> and \<open>null\<close> only.\<close>

definition nullish :: "json option \<Rightarrow> json \<Rightarrow> json" where
  "nullish v d = (case v of None \<Rightarrow> d | Some JNull \<Rightarrow> d | Some x \<Rightarrow> x)"

text \<open>\<open>parseAnalyzerOutput\<close>. Reading a property of \<open>null\<close> throws, which lands in the \<open>catch\<close>
  like a syntax error does; a property of any other value that is not an object is
  \<open>undefined\<close>.\<close>

definition parseAnalyzerOutput :: "(string \<Rightarrow> json option) \<Rightarrow> AgentResult \<Rightarrow> AnalyzerOutput" where
  "parseAnalyzerOutput parse result =
     (let contents = a_content (ar_artifact result);
          caught = \<lparr>an_complexity = DEFAULT_COMPLEXITY, an_summary = JStr (take 500 contents),
                    an_affectedFiles = JArr [], an_recommendedApproach = JStr []\<rparr>
      in case parse contents of
           None \<Rightarrow> caught
         | Some JNull \<Rightarrow> caught
         | Some parsed \<Rightarrow>
             (let raw = field parsed ''complexity'';
                  complexity =
                    (case raw of
                       Some (JNum n) \<Rightarrow> if 0 \<le> n \<and> n \<le> 1 then n else DEFAULT_COMPLEXITY
                     | Some (JStr t) \<Rightarrow>
                         if t = ''simple'' then 0.25
                         else if t = ''medium'' then 0.5
                         else if t = ''complex'' then 0.85
                         else DEFAULT_COMPLEXITY
                     | _ \<Rightarrow> DEFAULT_COMPLEXITY)
              in \<lparr>an_complexity = complexity,
                  an_summary = nullish (field parsed ''summary'') (JStr contents),
                  an_affectedFiles = nullish (field parsed ''affectedFiles'') (JArr []),
                  an_recommendedApproach = nullish (field parsed ''recommendedApproach'') (JStr [])\<rparr>))"

text \<open>\<open>parsePlannerOutput\<close> returns the parsed value itself when its \<open>type\<close> is one of the two
  plan kinds, and otherwise (also after an exception) a spec whose body is the raw text.\<close>

definition parsePlannerOutput :: "(string \<Rightarrow> json option) \<Rightarrow> AgentResult \<Rightarrow> json" where
  "parsePlannerOutput parse result =
     (let contents = a_content (ar_artifact result);
          fallback = JObj [(''type'', JStr ''spec''), (''spec'', JStr contents),
                           (''acceptanceCriteria'', JArr []), (''expectedFiles'', JArr []),
                           (''fileScope'', JArr [])]
      in case parse contents of
           None \<Rightarrow> fallback
         | Some JNull \<Rightarrow> fallback
         | Some parsed \<Rightarrow>
             if field parsed ''type'' = Some (JStr ''decomposition'')
                \<or> field parsed ''type'' = Some (JStr ''spec'')
             then parsed else fallback)"

text \<open>
  The two replacements the steward and oracle parsers apply to the trimmed text.
  \<open>.replace(/^```(?:json)?\s*/i, "")\<close>: at the start of the text, three backticks, then
  \<open>json\<close> in any case when it is there, then all white space that follows.
  \<open>.replace(/\s*```$/i, "")\<close>: three backticks at the very end of the text, together with
  all white space before them (the leftmost match takes the whole run).
\<close>

definition FENCE :: string where
  "FENCE = [CHR 0x60, CHR 0x60, CHR 0x60]"

definition strip_fence_open :: "string \<Rightarrow> string" where
  "strip_fence_open s =
     (if startsWith s FENCE
      then (let r = drop 3 s;
                r' = (if toLowerCase (take 4 r) = ''json'' then drop 4 r else r)
            in dropWhile is_space r')
      else s)"

definition strip_fence_close :: "string \<Rightarrow> string" where
  "strip_fence_close s =
     (if endsWith s FENCE then rev (dropWhile is_space (drop 3 (rev s))) else s)"

record StewardAction =
  sa_action :: string
  sa_taskIndices :: "json option"
  sa_retryFocus :: "json option"
  sa_fixDescription :: "json option"

text \<open>\<open>parseStewardOutput\<close>; \<open>None\<close> is the \<open>null\<close> it returns. \<open>valid.includes(action)\<close> holds
  only for a string of the list.\<close>

definition parseStewardOutput :: "(string \<Rightarrow> json option) \<Rightarrow> string \<Rightarrow> StewardAction option" where
  "parseStewardOutput parse contents =
     (let raw = trim contents;
          json = strip_fence_close (strip_fence_open raw)
      in case parse json of
           None \<Rightarrow> None
         | Some JNull \<Rightarrow> None
         | Some parsed \<Rightarrow>
             (let valid = [''retry_merge'', ''retry_children'', ''add_fix_task'',
                           ''re_decompose'', ''escalate'']
              in case field parsed ''action'' of
                   Some (JStr action) \<Rightarrow>
                     if action \<in> set valid
                     then Some \<lparr>sa_action = action,
                                sa_taskIndices = field parsed ''taskIndices'',
                                sa_retryFocus = field parsed ''retryFocus'',
                                sa_fixDescription = field parsed ''fixDescription''\<rparr>
                     else None
                 | _ \<Rightarrow> None))"

record OracleAction =
  oa_action :: string
  oa_nudgeMessage :: "json option"
  oa_retryFocus :: "json option"

definition parseOracleOutput :: "(string \<Rightarrow> json option) \<Rightarrow> string \<Rightarrow> OracleAction option" where
  "parseOracleOutput parse contents =
     (let raw = trim contents;
          json = strip_fence_close (strip_fence_open raw)
      in case parse json of
           None \<Rightarrow> None
         | Some JNull \<Rightarrow> None
         | Some parsed \<Rightarrow>
             (let valid = [''nudge_root_steward'', ''retry_once'', ''escalate_to_user'']
              in case field parsed ''action'' of
                   Some (JStr action) \<Rightarrow>
                     if action \<in> set valid
                     then Some \<lparr>oa_action = action,
                                oa_nudgeMessage = field parsed ''nudgeMessage'',
                                oa_retryFocus = field parsed ''retryFocus''\<rparr>
                     else None
                 | _ \<Rightarrow> None))"

section \<open>The claims' words about the parsers\<close>

text \<open>A payload wrapped in a Markdown code fence: the opening backticks with the language
  tag, a line break, the payload, a line break, the closing backticks.\<close>

definition fenced :: "string \<Rightarrow> string \<Rightarrow> string" where
  "fenced lang p = FENCE @ lang @ [nl] @ p @ [nl] @ FENCE"

text \<open>A payload that is not itself fenced: apart from white space around it, it neither
  starts nor ends with three backticks.\<close>

definition unfenced :: "string \<Rightarrow> bool" where
  "unfenced p = (\<not> startsWith (trim p) FENCE \<and> \<not> endsWith (trim p) FENCE)"

text \<open>
  An instance of \<open>JSON.parse\<close> for the examples: a parser for the JSON texts built from
  objects, arrays, strings without escapes and the literals \<open>true\<close>, \<open>false\<close> and \<open>null\<close>.
  It answers \<open>None\<close> for every text outside this fragment, so also for every text that is
  not JSON at all. The recursion is bounded by fuel.
\<close>

definition dq :: char where
  "dq = CHR 0x22"

definition quoted :: "string \<Rightarrow> string" where
  "quoted s = dq # s @ [dq]"

definition is_json_ws :: "char \<Rightarrow> bool" where
  "is_json_ws c = (c = CHR 0x20 \<or> c = CHR 0x09 \<or> c = CHR 0x0A \<or> c = CHR 0x0D)"

definition skip_ws :: "string \<Rightarrow> string" where
  "skip_ws s = dropWhile is_json_ws s"

fun scan_string :: "string \<Rightarrow> (string \<times> string) option" where
  "scan_string [] = None"
| "scan_string (c # cs) =
     (if c = dq then Some ([], cs)
      else if c = bs \<or> (of_char c :: nat) < 32 then None
      else (case scan_string cs of None \<Rightarrow> None | Some (t, r) \<Rightarrow> Some (c # t, r)))"

fun parse_value :: "nat \<Rightarrow> string \<Rightarrow> (json \<times> string) option"
  and parse_elements :: "nat \<Rightarrow> string \<Rightarrow> (json list \<times> string) option"
  and parse_members :: "nat \<Rightarrow> string \<Rightarrow> ((string \<times> json) list \<times> string) option" where
  "parse_value 0 s = None"
| "parse_value (Suc n) s =
     (case skip_ws s of
        [] \<Rightarrow> None
      | c # cs \<Rightarrow>
          if c = dq then (case scan_string cs of None \<Rightarrow> None | Some (t, r) \<Rightarrow> Some (JStr t, r))
          else if c = CHR ''['' then
            (case skip_ws cs of
               [] \<Rightarrow> None
             | d # ds \<Rightarrow>
                 if d = CHR '']'' then Some (JArr [], ds)
                 else (case parse_elements n (d # ds) of
                         None \<Rightarrow> None | Some (vs, r) \<Rightarrow> Some (JArr vs, r)))
          else if c = CHR ''{'' then
            (case skip_ws cs of
               [] \<Rightarrow> None
             | d # ds \<Rightarrow>
                 if d = CHR ''}'' then Some (JObj [], ds)
                 else (case parse_members n (d # ds) of
                         None \<Rightarrow> None | Some (kvs, r) \<Rightarrow> Some (JObj kvs, r)))
          else if startsWith (c # cs) ''true'' then Some (JBool True, drop 4 (c # cs))
          else if startsWith (c # cs) ''false'' then Some (JBool False, drop 5 (c # cs))
          else if startsWith (c # cs) ''null'' then Some (JNull, drop 4 (c # cs))
          else None)"
| "parse_elements 0 s = None"
| "parse_elements (Suc n) s =
     (case parse_value n s of
        None \<Rightarrow> None
      | Some (v, r) \<Rightarrow>
          (case skip_ws r of
             [] \<Rightarrow> None
           | c # cs \<Rightarrow>
               if c = CHR '']'' then Some ([v], cs)
               else if c = CHR '','' then
                 (case parse_elements n cs of
                    None \<Rightarrow> None | Some (vs, r') \<Rightarrow> Some (v # vs, r'))
               else None))"
| "parse_members 0 s = None"
| "parse_members (Suc n) s =
     (case skip_ws s of
        [] \<Rightarrow> None
      | c # cs \<Rightarrow>
          if c \<noteq> dq then None
          else (case scan_string cs of
                  None \<Rightarrow> None
                | Some (k, r) \<Rightarrow>
                    (case skip_ws r of
                       [] \<Rightarrow> None
                     | d # ds \<Rightarrow>
                         if d \<noteq> CHR '':'' then None
                         else (case parse_value n ds of
                                 None \<Rightarrow> None
                               | Some (v, r') \<Rightarrow>
                                   (case skip_ws r' of
                                      [] \<Rightarrow> None
                                    | e # es \<Rightarrow>
                                        if e = CHR ''}'' then Some ([(k, v)], es)
                                        else if e = CHR '','' then
                                          (case parse_members n es of
                                             None \<Rightarrow> None
                                           | Some (kvs, r'') \<Rightarrow> Some ((k, v) # kvs, r''))
                                        else None)))))"

definition json_parse :: "string \<Rightarrow> json option" where
  "json_parse s =
     (case parse_value (Suc (2 * length s)) s of
        None \<Rightarrow> None
      | Some (v, r) \<Rightarrow> if skip_ws r = [] then Some v else None)"

text \<open>Example payloads: a steward action, an oracle action and an analysis.\<close>

definition steward_payload :: string where
  "steward_payload =
     ''{'' @ quoted ''action'' @ '': '' @ quoted ''retry_children'' @ '', ''
     @ quoted ''retryFocus'' @ '': '' @ quoted ''tests'' @ ''}''"

definition oracle_payload :: string where
  "oracle_payload = ''{'' @ quoted ''action'' @ '':'' @ quoted ''retry_once'' @ ''}''"

definition analysis_payload :: string where
  "analysis_payload =
     ''{'' @ quoted ''complexity'' @ '':'' @ quoted ''complex'' @ '',''
     @ quoted ''summary'' @ '':'' @ quoted ''rewrite the parser'' @ ''}''"

definition result_with :: "string \<Rightarrow> AgentResult" where
  "result_with c =
     \<lparr>ar_agentId = ''test'', ar_role = Analyzer, ar_status = Completed,
      ar_artifact = \<lparr>a_type = AT_analysis, a_content = c, a_handoff_notes = [],
                      a_review_notes = [], a_createdAt = ''now''\<rparr>,
      ar_tokenUsage = \<lparr>promptTokens = 0, completionTokens = 0, totalTokens = 0\<rparr>,
      ar_conversationLog = []\<rparr>"

section \<open>The claims' words about the tool surface\<close>

text \<open>A command matches an entry of the safety blocklist.\<close>

definition blocked_by_list :: "string \<Rightarrow> bool" where
  "blocked_by_list command = list_ex (\<lambda>(pattern, source). test pattern command) BLOCKED_COMMANDS"



section \<open>Claims about the TaskManager\<close>

lemma persist_tasks: "persist fails task m = Inr m' \<Longrightarrow> tasks m' = tasks m"
  by (auto simp: persist_def Let_def split: if_splits)

text \<open>
  C7 (as the code has it). A complexity write on a known task always takes effect: after
  \<open>setComplexity i c2\<close> the stored complexity is \<open>c2\<close>, whatever value \<open>c1\<close> was stored
  before and whether or not the write to the store succeeds. The last write wins.
\<close>

theorem setComplexity_overwrites:
  assumes "tasks m i = Some task" and "t_complexity task = Some c1"
  shows "complexity_of (snd (setComplexity fails now i c2 m)) i = Some c2"
proof (cases "persist fails (task\<lparr>t_complexity := Some c2, t_updatedAt := now\<rparr>)
                (m\<lparr>tasks := (tasks m)(i \<mapsto> task\<lparr>t_complexity := Some c2, t_updatedAt := now\<rparr>)\<rparr>)")
  case (Inl e)
  with assms show ?thesis
    by (simp add: setComplexity_def complexity_of_def get_def Let_def)
next
  case (Inr m2)
  from persist_tasks [OF Inr] Inr assms show ?thesis
    by (simp add: setComplexity_def complexity_of_def get_def Let_def)
qed

theorem setComplexity_overwrites_witness:
  "complexity_of once_set ''t1'' = Some 0.25
   \<and> complexity_of (snd (setComplexity (\<lambda>_. False) ''00:02'' ''t1'' 0.85 once_set)) ''t1''
       = Some 0.85"
proof -
  let ?task = "\<lparr>t_id = ''t1'', t_parentId = None, t_description = ''test task'',
                t_status = TS_pending, t_complexity = Some 0.25, t_assignedRole = None,
                t_artifacts = [], t_subtaskIds = [], t_workflowId = None,
                t_createdAt = ''00:00'', t_updatedAt = ''00:01''\<rparr>"
  have h1: "tasks once_set ''t1'' = Some ?task"
    by (simp add: once_set_def create_def setComplexity_def persist_def empty_manager_def Let_def)
  have h2: "t_complexity ?task = Some 0.25" by simp
  have "complexity_of once_set ''t1'' = Some 0.25"
    using h1 by (simp add: complexity_of_def get_def)
  with setComplexity_overwrites [OF h1 h2] show ?thesis by simp
qed

text \<open>
  C7 as stated fails: a task is created, its complexity set to 0.25 and then to 0.85; the
  second write is not ignored, the stored complexity is 0.85.
\<close>

theorem setComplexity_second_write_counterexample:
  "complexity_of once_set ''t1'' = Some 0.25
   \<and> complexity_of twice_set ''t1'' = Some 0.85
   \<and> complexity_of twice_set ''t1'' \<noteq> complexity_of once_set ''t1''"
  by (simp add: twice_set_def once_set_def create_def setComplexity_def persist_def
      empty_manager_def complexity_of_def get_def Let_def)


section \<open>Claims about the tool surface\<close>

lemma isCommandBlocked_in_hit:
  "list_ex (\<lambda>(pattern, source). test pattern command) ps \<Longrightarrow>
   \<exists>source. isCommandBlocked_in ps command
              = Some (''Command blocked by safety policy: matches '' @ source)"
  by (induction ps) auto








text \<open>
  C3. A command that matches an entry of \<open>BLOCKED_COMMANDS\<close> is answered with an error
  result carrying the blocking message, and the tool performs no effect at all: \<open>execa\<close> is
  never called, so no child process is spawned. The explicit cases of the specification,
  the fork bomb among them, all match the list.
\<close>

theorem blocked_command_not_executed:
  "(blocked_by_list command \<longrightarrow>
     (\<exists>source. run_terminal_command rt \<lparr>arg_command = command, arg_cwd = cwd\<rparr> ctx
        = (Returns \<lparr>content = ''Command blocked by safety policy: matches '' @ source,
                     isError = True\<rparr>, [])))
   \<and> list_all blocked_by_list
       [''rm -rf /'', ''rm -rf ~'', ''git push --force'', ''git push -f'', ''npm publish'',
        ''npx some-tool publish'', ''sudo rm file'', ''mkfs'', ''dd if=/dev/zero'',
        '':(){ :|:& };:'']"
proof
  show "blocked_by_list command \<longrightarrow>
     (\<exists>source. run_terminal_command rt \<lparr>arg_command = command, arg_cwd = cwd\<rparr> ctx
        = (Returns \<lparr>content = ''Command blocked by safety policy: matches '' @ source,
                     isError = True\<rparr>, []))"
  proof
    assume "blocked_by_list command"
    then obtain source where
      "isCommandBlocked command = Some (''Command blocked by safety policy: matches '' @ source)"
      unfolding blocked_by_list_def isCommandBlocked_def
      using isCommandBlocked_in_hit by blast
    then show "\<exists>source. run_terminal_command rt \<lparr>arg_command = command, arg_cwd = cwd\<rparr> ctx
          = (Returns \<lparr>content = ''Command blocked by safety policy: matches '' @ source,
                       isError = True\<rparr>, [])"
      by (simp add: run_terminal_command_def)
  qed
  show "list_all blocked_by_list
       [''rm -rf /'', ''rm -rf ~'', ''git push --force'', ''git push -f'', ''npm publish'',
        ''npx some-tool publish'', ''sudo rm file'', ''mkfs'', ''dd if=/dev/zero'',
        '':(){ :|:& };:'']"
    by code_simp
qed

theorem blocked_command_not_executed_witness:
  "blocked_by_list '':(){ :|:& };:''
   \<and> (\<exists>source. run_terminal_command demo_rt \<lparr>arg_command = '':(){ :|:& };:'', arg_cwd = None\<rparr> demo_ctx
        = (Returns \<lparr>content = ''Command blocked by safety policy: matches '' @ source,
                     isError = True\<rparr>, []))"
proof -
  have h: "blocked_by_list '':(){ :|:& };:''" by code_simp
  from blocked_command_not_executed [of "'':(){ :|:& };:''" demo_rt None demo_ctx] h
  show ?thesis by blast
qed





section \<open>Claims about the agent runtime\<close>






lemma tool_turns_append [simp]: "tool_turns (xs @ ys) = tool_turns xs @ tool_turns ys"
  by (simp add: tool_turns_def)

lemma turn_keys_append [simp]: "turn_keys env (xs @ ys) = turn_keys env xs @ turn_keys env ys"
  by (simp add: turn_keys_def)

lemma tool_turns_tool_message [simp]: "tool_turns [tool_message c i] = []"
  by (simp add: tool_turns_def tool_message_def)

lemma tool_turns_message [simp]: "tool_turns [message r c] = []"
  by (simp add: tool_turns_def message_def)

lemma emit_fields [simp]:
  "ag_messages (emit ev st) = ag_messages st"
  "ag_recentToolCalls (emit ev st) = ag_recentToolCalls st"
  "ag_agentId (emit ev st) = ag_agentId st"
  "ag_world (emit ev st) = ag_world st"
  "ag_lastError (emit ev st) = ag_lastError st"
  by (simp_all add: emit_def)

lemma push_fields [simp]:
  "ag_messages (push m st) = ag_messages st @ [m]"
  "ag_recentToolCalls (push m st) = ag_recentToolCalls st"
  "ag_agentId (push m st) = ag_agentId st"
  "ag_world (push m st) = ag_world st"
  by (simp_all add: push_def)

lemma buildResult_fields [simp]:
  "ar_conversationLog (buildResult env cfg status summary body h r st) = ag_messages st"
  "ar_status (buildResult env cfg status summary body h r st) = status"
  "a_content (ar_artifact (buildResult env cfg status summary None h r st)) = summary"
  by (simp_all add: buildResult_def)




lemma accumulateUsage_fields [simp]:
  "ag_messages (accumulateUsage u st) = ag_messages st"
  "ag_recentToolCalls (accumulateUsage u st) = ag_recentToolCalls st"
  by (simp_all add: accumulateUsage_def Let_def)

















section \<open>Claims about events\<close>


lemma deliver_quiet:
  "\<forall>h \<in> set hs. \<forall>t. \<not> throws_on h ev t \<Longrightarrow>
   \<exists>s'. deliver hs ev s = (map fst hs, Inr (), s')"
proof (induction hs arbitrary: s)
  case Nil
  then show ?case by simp
next
  case (Cons h hs)
  then have "\<not> throws_on h ev s" by simp
  then obtain s1 where s1: "snd h ev s = Inr s1"
    by (cases "snd h ev s") (auto simp: throws_on_def)
  from Cons have "\<exists>s'. deliver hs ev s1 = (map fst hs, Inr (), s')" by simp
  with s1 show ?case by auto
qed




lemma filter_Below [simp]:
  "filter is_start (map Below evs) = []" "filter is_complete (map Below evs) = []"
  by (induction evs) (simp_all add: is_start_def is_complete_def)

lemma quiet_emit:
  assumes "quiet_on_workflow bus0" and "is_start ev \<or> is_complete ev"
  shows "\<exists>invoked s'. bus_emit ev (bus_on (tracker_handler i) bus0) s = (invoked, Inr (), s')"
proof -
  have "\<forall>h \<in> set (listeners (bus_on (tracker_handler i) bus0)). \<forall>t. \<not> throws_on h ev t"
    using assms by (auto simp: quiet_on_workflow_def bus_on_def tracker_handler_def throws_on_def)
  from deliver_quiet [OF this] show ?thesis by (simp add: bus_emit_def) blast
qed

text \<open>
  C1 (as the code has it). On a bus none of whose subscribers throws on a workflow event,
  every run hands to the bus exactly one \<open>workflow:start\<close> and exactly one
  \<open>workflow:complete\<close>, both with the task id passed to \<open>run\<close>; the completion carries the
  status of the result when \<open>runTask\<close> returns, and \<open>failed\<close> when \<open>runTask\<close> throws (then
  \<open>run\<close> rejects with a \<open>WorkflowError\<close>).
\<close>

theorem run_one_start_one_complete:
  assumes "quiet_on_workflow bus0"
  shows "\<exists>st. filter is_start (emitted_by (WorkflowEngine_run runTask tracker bus0 description task_id s0))
               = [WorkflowStart ''babylon-cycle'' task_id description]
           \<and> filter is_complete
               (emitted_by (WorkflowEngine_run runTask tracker bus0 description task_id s0))
               = [WorkflowComplete task_id st]
           \<and> (\<forall>result. fst (WorkflowEngine_run runTask tracker bus0 description task_id s0)
                          = Inr result \<longrightarrow>
                 st = w_status result \<and> (\<exists>below s s'. runTask s = (below, Inr result, s')))
           \<and> (\<forall>e. fst (WorkflowEngine_run runTask tracker bus0 description task_id s0) = Inl e
                   \<longrightarrow>
                 st = WS_failed
                 \<and> (\<exists>msg below s s'. e = WorkflowError msg \<and> runTask s = (below, Inl msg, s')))"
proof -
  let ?bus = "bus_on (tracker_handler tracker) bus0"
  let ?start = "WorkflowStart ''babylon-cycle'' task_id description"
  have st: "is_start ?start" by (simp add: is_start_def)
  from quiet_emit [OF assms, of ?start tracker s0] st obtain inv1 s1 where
    e1: "bus_emit ?start ?bus s0 = (inv1, Inr (), s1)" by blast
  obtain below out s2 where rt: "runTask s1 = (below, out, s2)"
    by (cases "runTask s1")
  have sf: "filter is_start [?start] = [?start]" "filter is_complete [?start] = []"
    by (simp_all add: is_start_def is_complete_def)
  have cf: "filter is_start [WorkflowComplete task_id x] = []"
           "filter is_complete [WorkflowComplete task_id x] = [WorkflowComplete task_id x]" for x
    by (simp_all add: is_start_def is_complete_def)
  show ?thesis
  proof (cases out)
    case (Inr result)
    let ?complete = "WorkflowComplete task_id (w_status result)"
    have "is_complete ?complete" by (simp add: is_complete_def)
    with quiet_emit [OF assms, of ?complete tracker s2] obtain inv2 s3 where
      e2: "bus_emit ?complete ?bus s2 = (inv2, Inr (), s3)" by blast
    have R: "WorkflowEngine_run runTask tracker bus0 description task_id s0
             = (Inr result, (?start # map Below below) @ [?complete], s3, bus_off tracker ?bus)"
      using e1 rt Inr e2 by (simp add: WorkflowEngine_run_def Let_def)
    show ?thesis
      using rt Inr sf cf
      by (intro exI [of _ "w_status result"]) (auto simp: R emitted_by_def is_start_def is_complete_def)
  next
    case (Inl msg)
    let ?failed = "WorkflowComplete task_id WS_failed"
    have "is_complete ?failed" by (simp add: is_complete_def)
    with quiet_emit [OF assms, of ?failed tracker s2] obtain inv2 s3 where
      e2: "bus_emit ?failed ?bus s2 = (inv2, Inr (), s3)" by blast
    have R: "WorkflowEngine_run runTask tracker bus0 description task_id s0
             = (Inl (WorkflowError msg), (?start # map Below below) @ [?failed], s3,
                bus_off tracker ?bus)"
      using e1 rt Inl e2 by (simp add: WorkflowEngine_run_def on_caught_def Let_def)
    show ?thesis
      using rt Inl
      by (intro exI [of _ WS_failed]) (auto simp: R emitted_by_def is_start_def is_complete_def)
  qed
qed

theorem run_one_start_one_complete_witness:
  "quiet_on_workflow (bus_on (recorder 1) new_bus)
   \<and> emitted_by (WorkflowEngine_run failing_task 0 (bus_on (recorder 1) new_bus)
                   ''do something'' ''task-1'' [])
       = [WorkflowStart ''babylon-cycle'' ''task-1'' ''do something'', Below (AgentTurn ''a'' 1 3),
          WorkflowComplete ''task-1'' WS_failed]
   \<and> (\<exists>st. filter is_complete
              (emitted_by (WorkflowEngine_run failing_task 0 (bus_on (recorder 1) new_bus)
                             ''do something'' ''task-1'' []))
            = [WorkflowComplete ''task-1'' st])"
proof -
  have q: "quiet_on_workflow (bus_on (recorder 1) new_bus)"
    by (simp add: quiet_on_workflow_def bus_on_def new_bus_def recorder_def throws_on_def)
  have e: "emitted_by (WorkflowEngine_run failing_task 0 (bus_on (recorder 1) new_bus)
                   ''do something'' ''task-1'' [])
       = [WorkflowStart ''babylon-cycle'' ''task-1'' ''do something'', Below (AgentTurn ''a'' 1 3),
          WorkflowComplete ''task-1'' WS_failed]"
    by (simp add: emitted_by_def WorkflowEngine_run_def on_caught_def bus_emit_def bus_on_def
        new_bus_def recorder_def tracker_handler_def failing_task_def Let_def)
  from run_one_start_one_complete [OF q, of failing_task 0 "''do something''" "''task-1''" "[]"] q e
  show ?thesis by blast
qed

text \<open>
  C1 as stated fails when a subscriber throws while it is shown the completion: the first
  \<open>workflow:complete\<close> is emitted inside the \<open>try\<close>, the exception lands in the \<open>catch\<close>, and a
  second \<open>workflow:complete\<close> (status \<open>failed\<close>) is emitted for the same run.
\<close>

theorem run_two_completes_counterexample:
  "emitted_by (WorkflowEngine_run done_task 0 (bus_on picky new_bus) ''do something'' ''task-1'' [])
     = [WorkflowStart ''babylon-cycle'' ''task-1'' ''do something'',
        WorkflowComplete ''task-1'' WS_completed, WorkflowComplete ''task-1'' WS_failed]
   \<and> length (filter is_complete
        (emitted_by (WorkflowEngine_run done_task 0 (bus_on picky new_bus)
                       ''do something'' ''task-1'' []))) = 2"
  by (simp add: emitted_by_def WorkflowEngine_run_def on_caught_def bus_emit_def bus_on_def
      new_bus_def picky_def tracker_handler_def done_task_def Let_def is_complete_def)

section \<open>Claims about the decomposition\<close>

lemma keeps_iff_not_duplicate:
  "keeps_subtask (toLowerCase (trim (st_description setupTask))) s
   = (\<not> duplicates_setup setupTask s)"
  by (auto simp: keeps_subtask_def duplicates_setup_def Let_def list_all_iff)

text \<open>
  C9 (as the code has it). With a setup task \<open>S\<close>, the filter removes exactly the subtasks
  whose trimmed, lower-cased description equals that of \<open>S\<close>, or which contain every word
  of \<open>S\<close> longer than two characters when \<open>S\<close> has at least two such words; it keeps the
  rest in their order. No subtask that is left has the setup's description.
\<close>

theorem filter_setup_duplicates:
  assumes "p_setupTask plan = Some setupTask"
  shows "filterDuplicateSetupSubtask plan
           = filter (\<lambda>s. \<not> duplicates_setup setupTask s) (p_subtasks plan)
       \<and> (\<forall>s \<in> set (filterDuplicateSetupSubtask plan).
             toLowerCase (trim (st_description s)) \<noteq> toLowerCase (trim (st_description setupTask)))"
proof -
  have "keeps_subtask (toLowerCase (trim (st_description setupTask)))
          = (\<lambda>s. \<not> duplicates_setup setupTask s)"
    by (rule ext) (simp add: keeps_iff_not_duplicate)
  then have eq: "filterDuplicateSetupSubtask plan
           = filter (\<lambda>s. \<not> duplicates_setup setupTask s) (p_subtasks plan)"
    using assms by (simp add: filterDuplicateSetupSubtask_def Let_def)
  moreover have "\<forall>s \<in> set (filterDuplicateSetupSubtask plan).
             toLowerCase (trim (st_description s)) \<noteq> toLowerCase (trim (st_description setupTask))"
    unfolding eq by (auto simp: duplicates_setup_def Let_def)
  ultimately show ?thesis by simp
qed

theorem filter_setup_duplicates_witness:
  "p_setupTask setup_plan = Some (mk_subtask ''initialize project structure'' [''.''])
   \<and> map st_description (filterDuplicateSetupSubtask setup_plan)
       = [''document the project structure'', ''write the parser'']
   \<and> filterDuplicateSetupSubtask setup_plan
       = filter (\<lambda>s. \<not> duplicates_setup (mk_subtask ''initialize project structure'' [''.'']) s)
           (p_subtasks setup_plan)"
proof -
  have h: "p_setupTask setup_plan = Some (mk_subtask ''initialize project structure'' [''.''])"
    by (simp add: setup_plan_def)
  have e: "map st_description (filterDuplicateSetupSubtask setup_plan)
       = [''document the project structure'', ''write the parser'']"
    by code_simp
  from filter_setup_duplicates [OF h] h e show ?thesis by simp
qed

text \<open>
  C9 as stated fails: the setup is \<open>initialize project structure\<close>; the subtask
  \<open>document the project structure\<close> contains two of its three words, yet the filter keeps
  it, because the word \<open>initialize\<close> does not occur in it.
\<close>

theorem filter_keeps_two_word_match_counterexample:
  "claimed_duplicate (mk_subtask ''initialize project structure'' [''.''])
     (mk_subtask ''document the project structure'' [''docs''])
   \<and> mk_subtask ''document the project structure'' [''docs'']
       \<in> set (filterDuplicateSetupSubtask setup_plan)"
  by code_simp

lemma pair_overlaps_iff: "pair_overlaps (scope_of s) (scope_of t) = scopes_overlap s t"
  by (auto simp: pair_overlaps_def scopes_overlap_def paths_overlap_def list_ex_iff)

lemma haveOverlapping_iff:
  "haveOverlappingFileScopes subtasks
   = (\<exists>i j. i < j \<and> j < length subtasks \<and> scopes_overlap (subtasks ! i) (subtasks ! j))"
proof (induction subtasks)
  case Nil
  then show ?case by simp
next
  case (Cons s rest)
  show ?case
  proof
    assume "haveOverlappingFileScopes (s # rest)"
    then consider t where "t \<in> set rest" "scopes_overlap s t"
      | "haveOverlappingFileScopes rest"
      by (auto simp: list_ex_iff pair_overlaps_iff)
    then show "\<exists>i j. i < j \<and> j < length (s # rest)
                 \<and> scopes_overlap ((s # rest) ! i) ((s # rest) ! j)"
    proof cases
      case 1
      then obtain k where "k < length rest" "rest ! k = t" by (auto simp: in_set_conv_nth)
      with 1 show ?thesis by (intro exI [of _ 0] exI [of _ "Suc k"]) simp
    next
      case 2
      with Cons.IH obtain i j where "i < j" "j < length rest"
        "scopes_overlap (rest ! i) (rest ! j)" by blast
      then show ?thesis by (intro exI [of _ "Suc i"] exI [of _ "Suc j"]) simp
    qed
  next
    assume "\<exists>i j. i < j \<and> j < length (s # rest)
              \<and> scopes_overlap ((s # rest) ! i) ((s # rest) ! j)"
    then obtain i j where ij: "i < j" "j < length (s # rest)"
      "scopes_overlap ((s # rest) ! i) ((s # rest) ! j)" by blast
    then obtain j' where j': "j = Suc j'" "j' < length rest" by (cases j) auto
    show "haveOverlappingFileScopes (s # rest)"
    proof (cases i)
      case 0
      with ij j' have "scopes_overlap s (rest ! j')" by simp
      moreover have "rest ! j' \<in> set rest" using j' by simp
      ultimately show ?thesis by (auto simp: list_ex_iff pair_overlaps_iff)
    next
      case (Suc i')
      with ij j' have "i' < j'" "scopes_overlap (rest ! i') (rest ! j')" by simp_all
      with j' Cons.IH have "haveOverlappingFileScopes rest" by blast
      then show ?thesis by simp
    qed
  qed
qed

lemma sequential_step_shape:
  assumes "sequential_step ops task_id originalDescription depth offset count i s e
             = (evs, Inr result, e')"
  shows "\<exists>before subtaskId during.
           evs = before @ [SubtaskStart task_id subtaskId (st_description s) (i + offset) count]
                 @ during @ [SubtaskComplete subtaskId (w_status result)]"
  using assms
  by (auto simp: sequential_step_def Let_def split: prod.splits sum.splits option.splits if_splits)

lemma run_sequential_paired:
  "run_sequential ops task_id originalDescription depth offset count i subtasks e
     = (evs, Inr results, e') \<Longrightarrow>
   paired task_id offset count i subtasks results evs
   \<and> (length results = length subtasks \<or> (results \<noteq> [] \<and> w_status (last results) = WS_failed))
   \<and> (\<forall>r \<in> set (butlast results). w_status r \<noteq> WS_failed)"
proof (induction subtasks arbitrary: i e evs results e')
  case Nil
  then show ?case by (auto intro: paired.intros)
next
  case (Cons s rest)
  obtain evs1 out e1 where st: "sequential_step ops task_id originalDescription depth offset count i s e
                                 = (evs1, out, e1)"
    by (cases "sequential_step ops task_id originalDescription depth offset count i s e")
  show ?case
  proof (cases out)
    case (Inl err)
    with st Cons.prems show ?thesis by simp
  next
    case (Inr result)
    from sequential_step_shape [OF st [unfolded Inr]] obtain before subtaskId during where
      shape: "evs1 = before @ [SubtaskStart task_id subtaskId (st_description s) (i + offset) count]
                     @ during @ [SubtaskComplete subtaskId (w_status result)]"
      by blast
    show ?thesis
    proof (cases "w_status result = WS_failed")
      case True
      with st Inr Cons.prems have r: "results = [result]" "evs = evs1" by simp_all
      have "paired task_id offset count i (s # rest) [result]
              (before @ [SubtaskStart task_id subtaskId (st_description s) (i + offset) count]
               @ during @ [SubtaskComplete subtaskId (w_status result)] @ [])"
        by (intro paired.intros)
      with r shape True show ?thesis by simp
    next
      case False
      obtain evs2 out2 e2 where rs:
        "run_sequential ops task_id originalDescription depth offset count (Suc i) rest e1
           = (evs2, out2, e2)"
        by (cases "run_sequential ops task_id originalDescription depth offset count (Suc i) rest e1")
      with st Inr False Cons.prems obtain results2 where
        o2: "out2 = Inr results2" and r: "results = result # results2" "evs = evs1 @ evs2"
        by (cases out2) auto
      from Cons.IH [OF rs [unfolded o2]] have
        ih: "paired task_id offset count (Suc i) rest results2 evs2"
            "length results2 = length rest \<or> (results2 \<noteq> [] \<and> w_status (last results2) = WS_failed)"
            "\<forall>r \<in> set (butlast results2). w_status r \<noteq> WS_failed"
        by auto
      have "paired task_id offset count i (s # rest) (result # results2)
              (before @ [SubtaskStart task_id subtaskId (st_description s) (i + offset) count]
               @ during @ [SubtaskComplete subtaskId (w_status result)] @ evs2)"
        using ih(1) by (rule paired.intros)
      with r shape ih False show ?thesis by auto
    qed
  qed
qed

lemma decomposition_without_setup:
  assumes "p_parallel plan"
    and "haveOverlappingFileScopes (filterDuplicateSetupSubtask plan)"
    and "phase_taskId ops e0 = (task_id, e)"
    and "p_setupTask plan = None"
    and "run_sequential ops task_id originalDescription depth (setup_offset plan)
           (setup_offset plan + length (filterDuplicateSetupSubtask plan)) 0
           (filterDuplicateSetupSubtask plan)
           (e\<lparr>e_compositeOversightContext :=
                Some \<lparr>oc_originalDescription = originalDescription, oc_depth = depth,
                      oc_currentSubtaskIndex = 0,
                      oc_subtaskDescriptions = map st_description (filterDuplicateSetupSubtask plan)\<rparr>,
              e_oversightCycleCount := 0\<rparr>) = (evs, res, e3)"
  shows "po_events (runDecomposition_subtasks ops plan originalDescription depth e0) = evs
       \<and> DOWNGRADE_LOG \<in> set (po_logs (runDecomposition_subtasks ops plan originalDescription depth e0))
       \<and> po_outcome (runDecomposition_subtasks ops plan originalDescription depth e0)
           = (case res of Inl err \<Rightarrow> Inl err | Inr results \<Rightarrow> Inr (SubtaskResults results))"
  using assms by (cases res) (simp_all add: runDecomposition_subtasks_def Let_def)

lemma decomposition_with_setup:
  assumes "p_parallel plan"
    and "haveOverlappingFileScopes (filterDuplicateSetupSubtask plan)"
    and "phase_taskId ops e0 = (task_id, e)"
    and "p_setupTask plan = Some setupTask"
    and "run_setup ops task_id originalDescription depth
           (setup_offset plan + length (filterDuplicateSetupSubtask plan)) setupTask
           (e\<lparr>e_compositeOversightContext :=
                Some \<lparr>oc_originalDescription = originalDescription, oc_depth = depth,
                      oc_currentSubtaskIndex = 0,
                      oc_subtaskDescriptions = map st_description (filterDuplicateSetupSubtask plan)\<rparr>,
              e_oversightCycleCount := 0\<rparr>) = (evs0, res0, e2)"
    and "run_sequential ops task_id originalDescription depth (setup_offset plan)
           (setup_offset plan + length (filterDuplicateSetupSubtask plan)) 0
           (filterDuplicateSetupSubtask plan) e2 = (evs, res, e3)"
  shows "DOWNGRADE_LOG \<in> set (po_logs (runDecomposition_subtasks ops plan originalDescription depth e0))
       \<and> (\<forall>results. po_outcome (runDecomposition_subtasks ops plan originalDescription depth e0)
                       = Inr (SubtaskResults results) \<longrightarrow>
             res = Inr results
             \<and> po_events (runDecomposition_subtasks ops plan originalDescription depth e0)
                 = evs0 @ evs)"
proof (cases res0)
  case (Inl err)
  with assms show ?thesis by (simp add: runDecomposition_subtasks_def Let_def)
next
  case (Inr setupResult)
  show ?thesis
  proof (cases "w_status setupResult = WS_failed")
    case True
    with Inr assms show ?thesis by (simp add: runDecomposition_subtasks_def Let_def)
  next
    case False
    with Inr assms show ?thesis
      by (cases res) (simp_all add: runDecomposition_subtasks_def Let_def)
  qed
qed

text \<open>
  C8 (as the code has it). When the plan asks for parallel execution and two of the
  filtered subtasks have overlapping file scopes, the engine logs the downgrade and, when
  the subtask phase returns the subtasks' results (the setup task, if any, did not fail
  and nothing threw), these results come from the sequential loop over the filtered
  subtasks: in declared order each subtask that ran has a \<open>subtask:start\<close> and the matching
  \<open>subtask:complete\<close>. The loop stops after the first subtask that fails, so the subtasks
  after it have no events; when no subtask fails, every filtered subtask has its pair.
\<close>

theorem overlap_runs_sequentially:
  assumes "p_parallel plan"
    and "\<exists>i j. i < j \<and> j < length (filterDuplicateSetupSubtask plan)
           \<and> scopes_overlap (filterDuplicateSetupSubtask plan ! i)
                            (filterDuplicateSetupSubtask plan ! j)"
  shows "DOWNGRADE_LOG \<in> set (po_logs (runDecomposition_subtasks ops plan originalDescription depth e0))
       \<and> (\<forall>results.
            po_outcome (runDecomposition_subtasks ops plan originalDescription depth e0)
              = Inr (SubtaskResults results) \<longrightarrow>
            (\<exists>setup_events evs.
               po_events (runDecomposition_subtasks ops plan originalDescription depth e0)
                 = setup_events @ evs
               \<and> paired (fst (phase_taskId ops e0)) (setup_offset plan)
                    (setup_offset plan + length (filterDuplicateSetupSubtask plan)) 0
                    (filterDuplicateSetupSubtask plan) results evs
               \<and> (length results = length (filterDuplicateSetupSubtask plan)
                    \<or> (results \<noteq> [] \<and> w_status (last results) = WS_failed))
               \<and> (\<forall>r \<in> set (butlast results). w_status r \<noteq> WS_failed)))"
proof -
  let ?F = "filterDuplicateSetupSubtask plan"
  let ?R = "runDecomposition_subtasks ops plan originalDescription depth e0"
  let ?P = "\<lambda>task_id results evs.
              paired task_id (setup_offset plan) (setup_offset plan + length ?F) 0 ?F results evs
              \<and> (length results = length ?F \<or> (results \<noteq> [] \<and> w_status (last results) = WS_failed))
              \<and> (\<forall>r \<in> set (butlast results). w_status r \<noteq> WS_failed)"
  from assms(2) have ov: "haveOverlappingFileScopes ?F" by (simp add: haveOverlapping_iff)
  obtain task_id e where tid: "phase_taskId ops e0 = (task_id, e)"
    by (cases "phase_taskId ops e0")
  let ?e1 = "e\<lparr>e_compositeOversightContext :=
                 Some \<lparr>oc_originalDescription = originalDescription, oc_depth = depth,
                       oc_currentSubtaskIndex = 0,
                       oc_subtaskDescriptions = map st_description ?F\<rparr>,
               e_oversightCycleCount := 0\<rparr>"
  have "DOWNGRADE_LOG \<in> set (po_logs ?R)
        \<and> (\<forall>results. po_outcome ?R = Inr (SubtaskResults results) \<longrightarrow>
              (\<exists>setup_events evs. po_events ?R = setup_events @ evs \<and> ?P task_id results evs))"
  proof (cases "p_setupTask plan")
    case None
    obtain evs res e3 where rs:
      "run_sequential ops task_id originalDescription depth (setup_offset plan)
         (setup_offset plan + length ?F) 0 ?F ?e1 = (evs, res, e3)"
      using prod_cases3 by blast
    note d = decomposition_without_setup [OF assms(1) ov tid None rs]
    have "\<exists>setup_events evs. po_events ?R = setup_events @ evs \<and> ?P task_id results evs"
      if out: "po_outcome ?R = Inr (SubtaskResults results)" for results
    proof -
      from d out have "res = Inr results" by (cases res) simp_all
      with rs run_sequential_paired have "?P task_id results evs" by blast
      moreover from d have "po_events ?R = [] @ evs" by simp
      ultimately show ?thesis by blast
    qed
    with d show ?thesis by blast
  next
    case (Some setupTask)
    obtain evs0 res0 e2 where su:
      "run_setup ops task_id originalDescription depth (setup_offset plan + length ?F)
         setupTask ?e1 = (evs0, res0, e2)"
      using prod_cases3 by blast
    obtain evs res e3 where rs:
      "run_sequential ops task_id originalDescription depth (setup_offset plan)
         (setup_offset plan + length ?F) 0 ?F e2 = (evs, res, e3)"
      using prod_cases3 by blast
    note d = decomposition_with_setup [OF assms(1) ov tid Some su rs]
    have "\<exists>setup_events evs. po_events ?R = setup_events @ evs \<and> ?P task_id results evs"
      if out: "po_outcome ?R = Inr (SubtaskResults results)" for results
    proof -
      from d out have r: "res = Inr results" and ev: "po_events ?R = evs0 @ evs" by blast+
      from rs r run_sequential_paired have "?P task_id results evs" by blast
      with ev show ?thesis by blast
    qed
    with d show ?thesis by blast
  qed
  with tid show ?thesis by simp
qed

theorem overlap_runs_sequentially_witness:
  "p_parallel good_plan
   \<and> (0::nat) < 1 \<and> 1 < length (filterDuplicateSetupSubtask good_plan)
   \<and> scopes_overlap (filterDuplicateSetupSubtask good_plan ! 0)
                    (filterDuplicateSetupSubtask good_plan ! 1)
   \<and> DOWNGRADE_LOG \<in> set (po_logs (runDecomposition_subtasks demo_ops good_plan ''build it'' 0
                                      demo_engine))
   \<and> po_outcome (runDecomposition_subtasks demo_ops good_plan ''build it'' 0 demo_engine)
       = Inr (SubtaskResults
                [\<lparr>w_status = WS_completed, w_artifacts = [], w_agentResults = []\<rparr>,
                 \<lparr>w_status = WS_completed, w_artifacts = [], w_agentResults = []\<rparr>])
   \<and> po_events (runDecomposition_subtasks demo_ops good_plan ''build it'' 0 demo_engine)
       = [SubtaskStart ''root'' ''id-0'' ''api'' 0 2, AgentTurn ''api'' 1 1,
          SubtaskComplete ''id-0'' WS_completed,
          SubtaskStart ''root'' ''id-1'' ''tests'' 1 2, AgentTurn ''tests'' 1 1,
          SubtaskComplete ''id-1'' WS_completed]"
proof -
  have h1: "p_parallel good_plan" by (simp add: good_plan_def)
  have h2: "(0::nat) < 1 \<and> 1 < length (filterDuplicateSetupSubtask good_plan)
            \<and> scopes_overlap (filterDuplicateSetupSubtask good_plan ! 0)
                             (filterDuplicateSetupSubtask good_plan ! 1)"
    by code_simp
  then have h2': "\<exists>i j. i < j \<and> j < length (filterDuplicateSetupSubtask good_plan)
           \<and> scopes_overlap (filterDuplicateSetupSubtask good_plan ! i)
                            (filterDuplicateSetupSubtask good_plan ! j)"
    by blast
  have o: "po_outcome (runDecomposition_subtasks demo_ops good_plan ''build it'' 0 demo_engine)
       = Inr (SubtaskResults
                [\<lparr>w_status = WS_completed, w_artifacts = [], w_agentResults = []\<rparr>,
                 \<lparr>w_status = WS_completed, w_artifacts = [], w_agentResults = []\<rparr>])"
    by code_simp
  have e: "po_events (runDecomposition_subtasks demo_ops good_plan ''build it'' 0 demo_engine)
       = [SubtaskStart ''root'' ''id-0'' ''api'' 0 2, AgentTurn ''api'' 1 1,
          SubtaskComplete ''id-0'' WS_completed,
          SubtaskStart ''root'' ''id-1'' ''tests'' 1 2, AgentTurn ''tests'' 1 1,
          SubtaskComplete ''id-1'' WS_completed]"
    by code_simp
  from overlap_runs_sequentially [OF h1 h2', of demo_ops "''build it''" 0 demo_engine]
  have "DOWNGRADE_LOG \<in> set (po_logs (runDecomposition_subtasks demo_ops good_plan ''build it'' 0
                                      demo_engine))"
    by blast
  with h1 h2 o e show ?thesis by blast
qed

text \<open>
  C8 as stated fails when a subtask fails: the plan is parallel with overlapping scopes,
  the first subtask returns \<open>failed\<close>, and the second subtask is never started: there is no
  \<open>subtask:start\<close> for it.
\<close>

theorem failed_subtask_stops_loop_counterexample:
  "p_parallel broken_plan
   \<and> haveOverlappingFileScopes (filterDuplicateSetupSubtask broken_plan)
   \<and> map st_description (filterDuplicateSetupSubtask broken_plan) = [''broken'', ''tests'']
   \<and> po_events (runDecomposition_subtasks demo_ops broken_plan ''build it'' 0 demo_engine)
       = [SubtaskStart ''root'' ''id-0'' ''broken'' 0 2, AgentTurn ''broken'' 1 1,
          SubtaskComplete ''id-0'' WS_failed]"
  by code_simp

section \<open>Claims about the parsers\<close>

lemma trim_fenced: "trim (fenced lang p) = fenced lang p"
  by (simp add: trim_def fenced_def FENCE_def is_space_def)

lemma strip_open_fenced:
  assumes "lang = [] \<or> toLowerCase lang = ''json''"
  shows "strip_fence_open (fenced lang p) = dropWhile is_space (p @ nl # FENCE)"
  using assms
proof
  assume "lang = []"
  then show ?thesis
    by (simp add: strip_fence_open_def fenced_def FENCE_def startsWith_def toLowerCase_def
        lower_char_def nl_def is_space_def Let_def)
next
  assume j: "toLowerCase lang = ''json''"
  then have "length (toLowerCase lang) = 4" by simp
  then have len: "length lang = 4" by (simp add: toLowerCase_def)
  have "dropWhile is_space (nl # p @ nl # FENCE) = dropWhile is_space (p @ nl # FENCE)"
    by (simp add: nl_def is_space_def)
  with j len show ?thesis
    by (simp add: strip_fence_open_def fenced_def FENCE_def startsWith_def Let_def)
qed

lemma strip_close_after_open: "strip_fence_close (dropWhile is_space (p @ nl # FENCE)) = trim p"
proof (cases "\<forall>c \<in> set p. is_space c")
  case True
  then have "dropWhile is_space (p @ nl # FENCE) = dropWhile is_space (nl # FENCE)"
    by (simp add: dropWhile_append2)
  also have "\<dots> = FENCE" by (simp add: nl_def is_space_def FENCE_def)
  finally have "strip_fence_close (dropWhile is_space (p @ nl # FENCE)) = []"
    by (simp add: strip_fence_close_def endsWith_def startsWith_def FENCE_def)
  moreover from True have d: "dropWhile is_space p = []" by simp
  have "trim p = []" unfolding trim_def d by simp
  ultimately show ?thesis by simp
next
  case False
  then obtain c where "c \<in> set p" "\<not> is_space c" by blast
  then have "dropWhile is_space (p @ nl # FENCE) = dropWhile is_space p @ nl # FENCE"
    by (rule dropWhile_append1)
  then show ?thesis
    by (simp add: strip_fence_close_def endsWith_def startsWith_def FENCE_def trim_def
        nl_def is_space_def)
qed

lemma strip_fenced:
  assumes "lang = [] \<or> toLowerCase lang = ''json''"
  shows "strip_fence_close (strip_fence_open (trim (fenced lang p))) = trim p"
  using assms by (simp add: trim_fenced strip_open_fenced strip_close_after_open)

lemma strip_unfenced:
  assumes "unfenced p"
  shows "strip_fence_close (strip_fence_open (trim p)) = trim p"
  using assms by (simp add: unfenced_def strip_fence_open_def strip_fence_close_def)

text \<open>
  C6 (as the code has it). The steward and the oracle parser tolerate one code fence:
  for every payload that is not itself fenced, and whatever \<open>JSON.parse\<close> does, parsing
  the payload wrapped in a fence (tagged \<open>json\<close> in any case, or untagged) gives the same
  result as parsing the payload unwrapped.
\<close>

theorem steward_oracle_tolerate_fence:
  assumes "unfenced p"
    and "lang = [] \<or> toLowerCase lang = ''json''"
  shows "parseStewardOutput parse (fenced lang p) = parseStewardOutput parse p
       \<and> parseOracleOutput parse (fenced lang p) = parseOracleOutput parse p"
proof -
  from assms have key: "strip_fence_close (strip_fence_open (trim (fenced lang p)))
                          = strip_fence_close (strip_fence_open (trim p))"
    by (simp add: strip_fenced strip_unfenced)
  show ?thesis
    unfolding parseStewardOutput_def parseOracleOutput_def Let_def
    by (simp only: key)
qed

theorem steward_oracle_tolerate_fence_witness:
  "unfenced steward_payload
   \<and> parseStewardOutput json_parse steward_payload
       = Some \<lparr>sa_action = ''retry_children'', sa_taskIndices = None,
                sa_retryFocus = Some (JStr ''tests''), sa_fixDescription = None\<rparr>
   \<and> parseStewardOutput json_parse (fenced ''json'' steward_payload)
       = Some \<lparr>sa_action = ''retry_children'', sa_taskIndices = None,
                sa_retryFocus = Some (JStr ''tests''), sa_fixDescription = None\<rparr>
   \<and> parseOracleOutput json_parse (fenced ''json'' steward_payload)
       = parseOracleOutput json_parse steward_payload"
proof -
  have h: "unfenced steward_payload" by code_simp
  have j: "[] = ''json'' \<or> toLowerCase ''json'' = ''json''" by code_simp
  have v: "parseStewardOutput json_parse steward_payload
       = Some \<lparr>sa_action = ''retry_children'', sa_taskIndices = None,
                sa_retryFocus = Some (JStr ''tests''), sa_fixDescription = None\<rparr>"
    by code_simp
  from steward_oracle_tolerate_fence [OF h, of "''json''" json_parse] j v
  show ?thesis using h by simp
qed

text \<open>
  C6 as stated fails for a payload that is itself fenced. The steward parser reads the
  fenced payload; wrapped in one more fence, only the outer fence is removed and what is
  left is not JSON, so the parser returns \<open>null\<close>.
\<close>

theorem steward_double_fence_counterexample:
  "parseStewardOutput json_parse (fenced ''json'' steward_payload)
     = Some \<lparr>sa_action = ''retry_children'', sa_taskIndices = None,
              sa_retryFocus = Some (JStr ''tests''), sa_fixDescription = None\<rparr>
   \<and> parseStewardOutput json_parse (fenced ''json'' (fenced ''json'' steward_payload)) = None"
  by code_simp

text \<open>The analyzer and the planner parser hand the text to \<open>JSON.parse\<close> as it is: a fenced
  payload takes their fallback, the unwrapped payload does not.\<close>

lemma analyzer_reads_payload:
  "parseAnalyzerOutput json_parse (result_with analysis_payload)
     = \<lparr>an_complexity = 0.85, an_summary = JStr ''rewrite the parser'',
        an_affectedFiles = JArr [], an_recommendedApproach = JStr []\<rparr>"
  by code_simp

lemma analyzer_fenced_falls_back:
  "parseAnalyzerOutput json_parse (result_with (fenced ''json'' analysis_payload))
     = \<lparr>an_complexity = DEFAULT_COMPLEXITY,
        an_summary = JStr (fenced ''json'' analysis_payload),
        an_affectedFiles = JArr [], an_recommendedApproach = JStr []\<rparr>"
  by code_simp

lemma planner_fenced_falls_back:
  "parsePlannerOutput json_parse (result_with (fenced ''json'' analysis_payload))
     = JObj [(''type'', JStr ''spec''), (''spec'', JStr (fenced ''json'' analysis_payload)),
             (''acceptanceCriteria'', JArr []), (''expectedFiles'', JArr []),
             (''fileScope'', JArr [])]"
  by code_simp

end
